theory Spec2Isabelle
  imports Complex_Main "HOL-Library.AList"
begin

section \<open>Values and the platform\<close>

text \<open>
  The OAuth proxy of \<^verbatim>\<open>src/index.ts\<close> is embedded function by function. JSON values
  are a datatype; a number is the rational that the double denotes (NaN and the
  infinities have no JSON text), objects are association lists in property order.
\<close>

datatype json =
    JNull
  | JBool bool
  | JNum rat
  | JStr string
  | JArr "json list"
  | JObj "(string \<times> json) list"

text \<open>
  Functions of Node and of the JavaScript language that the server calls but does not
  define are parameters, collected in one record:
  \<^item> \<open>hmac\<close> is \<^verbatim>\<open>crypto.createHmac("sha256", key).update(msg).digest("base64url")\<close>;
  \<^item> \<open>encode\<close> is \<^verbatim>\<open>Buffer.from(JSON.stringify(obj)).toString("base64url")\<close>;
  \<^item> \<open>decode\<close> is \<^verbatim>\<open>JSON.parse(Buffer.from(s, "base64url").toString())\<close>, \<open>None\<close> when
    \<^verbatim>\<open>JSON.parse\<close> throws;
  \<^item> \<open>json_parse\<close> is \<^verbatim>\<open>JSON.parse\<close>, \<open>None\<close> when it throws;
  \<^item> \<open>form_parse\<close> is \<^verbatim>\<open>new URLSearchParams(body)\<close>, as its list of entries;
  \<^item> \<open>url_ok s\<close> says that \<^verbatim>\<open>new URL(s)\<close> does not throw;
  \<^item> \<open>to_number\<close> is the language's ToNumber on a string, an array or an object, \<open>None\<close>
    standing for NaN;
  \<^item> \<open>nearest x\<close> is the double to which the arithmetic of the language rounds the
    exact result \<open>x\<close> when \<open>x\<close> is not an integer.
\<close>

record platform =
  hmac :: "string \<Rightarrow> string \<Rightarrow> string"
  encode :: "json \<Rightarrow> string"
  decode :: "string \<Rightarrow> json option"
  json_parse :: "string \<Rightarrow> json option"
  form_parse :: "string \<Rightarrow> (string \<times> string) list"
  url_ok :: "string \<Rightarrow> bool"
  to_number :: "json \<Rightarrow> rat option"
  nearest :: "rat \<Rightarrow> rat"

text \<open>
  Property access \<^verbatim>\<open>v.k\<close> on a value that is not \<^verbatim>\<open>null\<close>: an own property of an
  object, \<^verbatim>\<open>undefined\<close> (\<open>None\<close>) otherwise. On \<^verbatim>\<open>null\<close> the access throws a TypeError,
  which every caller below handles before calling \<open>js_prop\<close>.
\<close>

fun js_prop :: "json \<Rightarrow> string \<Rightarrow> json option" where
  "js_prop (JObj kvs) k = map_of kvs k"
| "js_prop _ k = None"

text \<open>Truthiness of a value that may be \<^verbatim>\<open>undefined\<close>.\<close>

fun truthy :: "json option \<Rightarrow> bool" where
  "truthy None = False"
| "truthy (Some JNull) = False"
| "truthy (Some (JBool b)) = b"
| "truthy (Some (JNum n)) = (n \<noteq> 0)"
| "truthy (Some (JStr s)) = (s \<noteq> [])"
| "truthy (Some (JArr _)) = True"
| "truthy (Some (JObj _)) = True"

text \<open>The relational comparison \<^verbatim>\<open>v < n\<close> against a number: \<open>v\<close> is converted first.\<close>

fun to_num :: "platform \<Rightarrow> json \<Rightarrow> rat option" where
  "to_num P JNull = Some 0"
| "to_num P (JBool b) = Some (if b then 1 else 0)"
| "to_num P (JNum n) = Some n"
| "to_num P v = to_number P v"

definition js_lt :: "platform \<Rightarrow> json \<Rightarrow> int \<Rightarrow> bool" where
  "js_lt P v n = (case to_num P v of None \<Rightarrow> False | Some m \<Rightarrow> m < of_int n)"

text \<open>
  The sum \<^verbatim>\<open>x + y\<close> of two numbers. A sum that is an integer is exact (an integer
  below \<open>2 ^ 53\<close> is a double, and the time stamps are far below); any other sum is
  rounded to a double.
\<close>

definition js_plus :: "platform \<Rightarrow> rat \<Rightarrow> rat \<Rightarrow> rat" where
  "js_plus P x y = (if of_int \<lfloor>x + y\<rfloor> = x + y then x + y else nearest P (x + y))"

text \<open>
  \<^verbatim>\<open>s.split(c)\<close> for a separator of one character: never empty, \<^verbatim>\<open>"".split(c)\<close> is
  \<^verbatim>\<open>[""]\<close>.
\<close>

fun split :: "char \<Rightarrow> string \<Rightarrow> string list" where
  "split c [] = [[]]"
| "split c (x # xs) =
     (if x = c then [] # split c xs
      else (case split c xs of [] \<Rightarrow> [[x]] | w # ws \<Rightarrow> (x # w) # ws))"

text \<open>\<^verbatim>\<open>xs.join(sep)\<close> on a list of strings.\<close>

fun join :: "string \<Rightarrow> string list \<Rightarrow> string" where
  "join sep [] = []"
| "join sep [x] = x"
| "join sep (x # y # ys) = x @ sep @ join sep (y # ys)"

section \<open>Signed tokens\<close>

text \<open>
  \<^verbatim>\<open>createJWT(payload, expiresIn)\<close>. The secret \<^verbatim>\<open>JWT_SECRET\<close>, the clock
  \<^verbatim>\<open>Date.now()\<close> (milliseconds) and the 16 random bytes of the token identifier (in hex)
  are arguments. The spread \<^verbatim>\<open>{...payload, iat, exp, jti}\<close> (\<open>fullPayload\<close>)
  overwrites a property of that name in place and appends it otherwise, which is
  \<open>AList.update\<close>. \<open>expiresIn\<close> is any number, not only a whole one.
\<close>

definition fullPayload :: "platform \<Rightarrow> int \<Rightarrow> string \<Rightarrow> (string \<times> json) list \<Rightarrow> rat \<Rightarrow> (string \<times> json) list" where
  "fullPayload P now rnd claims expiresIn =
     AList.update ''jti'' (JStr rnd)
       (AList.update ''exp'' (JNum (js_plus P (of_int now) expiresIn))
         (AList.update ''iat'' (JNum (of_int now)) claims))"

definition createJWT :: "platform \<Rightarrow> string \<Rightarrow> int \<Rightarrow> string \<Rightarrow> (string \<times> json) list \<Rightarrow> rat \<Rightarrow> string" where
  "createJWT P secret now_ms rnd claims expiresIn =
     (let header = JObj [(''alg'', JStr ''HS256''), (''typ'', JStr ''JWT'')];
          now = now_ms div 1000;
          headerB64 = encode P header;
          payloadB64 = encode P (JObj (fullPayload P now rnd claims expiresIn));
          signature = hmac P secret (headerB64 @ ''.'' @ payloadB64)
      in headerB64 @ ''.'' @ payloadB64 @ ''.'' @ signature)"

text \<open>
  The result \<^verbatim>\<open>{ valid: false }\<close> or \<^verbatim>\<open>{ valid: true, payload }\<close> of
  \<^verbatim>\<open>verifyJWT\<close>.
\<close>

datatype verify_result = Invalid | Valid json

text \<open>\<^verbatim>\<open>payload.exp && payload.exp < now\<close>, for a payload that is not \<^verbatim>\<open>null\<close>.\<close>

definition exp_passed :: "platform \<Rightarrow> json \<Rightarrow> int \<Rightarrow> bool" where
  "exp_passed P pl now =
     (case js_prop pl ''exp'' of
        None \<Rightarrow> False
      | Some e \<Rightarrow> truthy (Some e) \<and> js_lt P e now)"

text \<open>
  \<^verbatim>\<open>verifyJWT(token)\<close>. The destructuring takes the first three parts of the split and
  ignores any further one; with fewer than three parts the signature is \<^verbatim>\<open>undefined\<close>,
  which differs from the expected signature (a string). Everything runs inside
  \<^verbatim>\<open>try\<close>: \<^verbatim>\<open>JSON.parse\<close> throwing, and the TypeError of \<^verbatim>\<open>payload.exp\<close> on a
  payload that parsed to \<^verbatim>\<open>null\<close>, both end in the \<^verbatim>\<open>catch\<close> branch.
\<close>

definition verifyJWT :: "platform \<Rightarrow> string \<Rightarrow> int \<Rightarrow> string \<Rightarrow> verify_result" where
  "verifyJWT P secret now_ms token =
     (case split CHR ''.'' token of
        headerB64 # payloadB64 # signature # _ \<Rightarrow>
          if signature \<noteq> hmac P secret (headerB64 @ ''.'' @ payloadB64) then Invalid
          else (case decode P payloadB64 of
                  None \<Rightarrow> Invalid
                | Some JNull \<Rightarrow> Invalid
                | Some pl \<Rightarrow>
                    if exp_passed P pl (now_ms div 1000) then Invalid else Valid pl)
      | _ \<Rightarrow> Invalid)"

section \<open>Configuration and upstream credentials\<close>

text \<open>
  The values read from the environment at start-up: \<^verbatim>\<open>appId\<close>, \<^verbatim>\<open>appSecret\<close>,
  \<^verbatim>\<open>baseUrl\<close> and \<^verbatim>\<open>JWT_SECRET\<close>.
\<close>

record config =
  appId :: string
  appSecret :: string
  baseUrl :: string
  JWT_SECRET :: string

definition FACEBOOK_AUTH_ENDPOINT :: string where
  "FACEBOOK_AUTH_ENDPOINT = ''https://www.facebook.com/v21.0/dialog/oauth''"

definition FACEBOOK_TOKEN_ENDPOINT :: string where
  "FACEBOOK_TOKEN_ENDPOINT = ''https://graph.facebook.com/v21.0/oauth/access_token''"

definition FACEBOOK_SCOPES :: "string list" where
  "FACEBOOK_SCOPES =
     [''pages_show_list'', ''pages_read_engagement'', ''pages_manage_posts'',
      ''pages_read_user_content'', ''pages_manage_engagement'', ''read_insights'',
      ''instagram_basic'', ''instagram_content_publish'', ''instagram_manage_comments'',
      ''instagram_manage_insights'']"

text \<open>
  \<^verbatim>\<open>PageTokenInfo\<close> and \<^verbatim>\<open>MetaSession\<close> of \<^verbatim>\<open>src/types.ts\<close>. \<open>userId\<close> is declared a
  string there; it is optional here because \<^verbatim>\<open>exchangeFacebookCode\<close> copies
  \<^verbatim>\<open>userData.id\<close> without checking that the user request succeeded, so that it is
  \<^verbatim>\<open>undefined\<close> when upstream answered with an error object. \<open>pageTokens\<close> is the
  object keyed by page id, as an association list.
\<close>

record PageTokenInfo =
  accessToken :: string
  name :: string
  category :: "string option"
  instagramBusinessAccountId :: "string option"

record MetaSession =
  userAccessToken :: string
  userId :: "string option"
  userName :: "string option"
  expiresAt :: "int option"
  pageTokens :: "(string \<times> PageTokenInfo) list"

text \<open>
  The bodies the code reads from upstream, at the types it casts them to: the token
  object of the two calls to the token endpoint, the user object, and the page list
  (\<open>pages_list\<close> is its \<^verbatim>\<open>data\<close> property, which the code allows to be missing).
\<close>

record fb_tokens =
  access_token :: string
  token_type :: string
  expires_in :: "int option"

record fb_user =
  user_id :: string
  user_name :: "string option"

record fb_page =
  page_id :: string
  page_name :: string
  page_category :: "string option"
  page_access_token :: string
  instagram_business_account :: "string option"

type_synonym fb_pages = "fb_page list option"

text \<open>
  What \<^verbatim>\<open>await fetch(url)\<close> followed by \<^verbatim>\<open>await response.json()\<close> can give:
  \<^item> \<open>Failed r\<close>: \<^verbatim>\<open>fetch\<close> rejects (a network error); \<open>r\<close> is the reason as
    \<^verbatim>\<open>String(err)\<close> prints it;
  \<^item> \<open>NotJson ok r\<close>: a response whose body is not JSON, so that \<^verbatim>\<open>response.json()\<close>
    rejects with reason \<open>r\<close>; \<open>ok\<close> is \<^verbatim>\<open>response.ok\<close>;
  \<^item> \<open>HttpError m\<close>: a response with \<^verbatim>\<open>response.ok\<close> false whose body is the error object
    of the Graph API, \<open>m\<close> being its \<^verbatim>\<open>error?.message\<close>;
  \<^item> \<open>Ok v\<close>: a response with \<^verbatim>\<open>response.ok\<close> true, whose body has the type of the cast.
\<close>

datatype 'a fetched =
    Failed string
  | NotJson bool string
  | HttpError "string option"
  | Ok 'a

text \<open>A URL with its query, as the code assembles it: the address and the parameters.\<close>

type_synonym url = "string \<times> (string \<times> string) list"

text \<open>
  What one request reads from outside the process: the clock (\<^verbatim>\<open>Date.now()\<close>, in
  milliseconds; all reads within one request see the same instant), the random strings
  (\<^verbatim>\<open>crypto.randomBytes(16).toString("hex")\<close> in the handler, the same inside
  \<^verbatim>\<open>createJWT\<close>, and \<^verbatim>\<open>crypto.randomBytes(32).toString("base64url")\<close>), and the answers
  of upstream to \<^verbatim>\<open>fetch\<close>.
\<close>

record env =
  now :: int
  rand16 :: string
  rand16_jwt :: string
  rand32 :: string
  fetch_tokens :: "url \<Rightarrow> fb_tokens fetched"
  fetch_user :: "url \<Rightarrow> fb_user fetched"
  fetch_pages :: "url \<Rightarrow> fb_pages fetched"

text \<open>
  A thrown value: \<open>Error m\<close> is \<^verbatim>\<open>new Error(m)\<close>, \<open>Rejection r\<close> is the reason of a
  promise that \<^verbatim>\<open>fetch\<close> or \<^verbatim>\<open>response.json()\<close> rejected. \<open>fault_string\<close> is
  \<^verbatim>\<open>String(err)\<close>.
\<close>

datatype fault = Error string | Rejection string

fun fault_string :: "fault \<Rightarrow> string" where
  "fault_string (Error m) = ''Error: '' @ m"
| "fault_string (Rejection r) = r"

text \<open>\<^verbatim>\<open>error.error?.message || "Token exchange failed"\<close>.\<close>

definition error_message :: "string option \<Rightarrow> string" where
  "error_message m =
     (case m of
        None \<Rightarrow> ''Token exchange failed''
      | Some msg \<Rightarrow> if msg = [] then ''Token exchange failed'' else msg)"

text \<open>
  The loop \<^verbatim>\<open>for (const page of pagesData.data || []) pageTokens[page.id] = {...}\<close>,
  with the object built so far as accumulator.
\<close>

definition page_info :: "fb_page \<Rightarrow> PageTokenInfo" where
  "page_info page =
     \<lparr>accessToken = page_access_token page, name = page_name page,
      category = page_category page,
      instagramBusinessAccountId = instagram_business_account page\<rparr>"

fun collect_pages :: "fb_page list \<Rightarrow> (string \<times> PageTokenInfo) list \<Rightarrow> (string \<times> PageTokenInfo) list" where
  "collect_pages [] acc = acc"
| "collect_pages (page # rest) acc =
     collect_pages rest (AList.update (page_id page) (page_info page) acc)"

text \<open>
  \<^verbatim>\<open>exchangeFacebookCode(code, redirectUri)\<close>, the result \<open>Inl\<close> when it throws. Step 1
  throws on every failure. In step 2 only \<^verbatim>\<open>longLivedResponse.ok\<close> chooses between the
  long-lived and the short-lived token; the two \<^verbatim>\<open>await\<close>s before it are not in any
  \<^verbatim>\<open>try\<close>. Step 3 does not look at \<^verbatim>\<open>ok\<close> at all.
\<close>

definition exchangeFacebookCode :: "config \<Rightarrow> env \<Rightarrow> string \<Rightarrow> string \<Rightarrow> fault + MetaSession" where
  "exchangeFacebookCode cfg e code redirectUri =
     (case fetch_tokens e (FACEBOOK_TOKEN_ENDPOINT,
             [(''client_id'', appId cfg), (''client_secret'', appSecret cfg),
              (''redirect_uri'', redirectUri), (''code'', code)]) of
        Failed r \<Rightarrow> Inl (Rejection r)
      | NotJson ok r \<Rightarrow> Inl (Rejection r)
      | HttpError m \<Rightarrow> Inl (Error (error_message m))
      | Ok tokens \<Rightarrow>
         (case fetch_tokens e (FACEBOOK_TOKEN_ENDPOINT,
                 [(''grant_type'', ''fb_exchange_token''), (''client_id'', appId cfg),
                  (''client_secret'', appSecret cfg),
                  (''fb_exchange_token'', access_token tokens)]) of
            Failed r \<Rightarrow> Inl (Rejection r)
          | NotJson ok r \<Rightarrow> Inl (Rejection r)
          | longLived \<Rightarrow>
             (let accessToken =
                    (case longLived of Ok t \<Rightarrow> access_token t | _ \<Rightarrow> access_token tokens);
                  expiresIn =
                    (case longLived of Ok t \<Rightarrow> expires_in t | _ \<Rightarrow> expires_in tokens)
              in case fetch_user e (''https://graph.facebook.com/v21.0/me'',
                        [(''access_token'', accessToken)]) of
                   Failed r \<Rightarrow> Inl (Rejection r)
                 | NotJson ok r \<Rightarrow> Inl (Rejection r)
                 | userData \<Rightarrow>
                    (case fetch_pages e (''https://graph.facebook.com/v21.0/me/accounts'',
                            [(''fields'', ''id,name,category,access_token,instagram_business_account''),
                             (''access_token'', accessToken)]) of
                       Failed r \<Rightarrow> Inl (Rejection r)
                     | NotJson ok r \<Rightarrow> Inl (Rejection r)
                     | pagesData \<Rightarrow>
                        Inr \<lparr>userAccessToken = accessToken,
                             userId = (case userData of Ok u \<Rightarrow> Some (user_id u) | _ \<Rightarrow> None),
                             userName = (case userData of Ok u \<Rightarrow> user_name u | _ \<Rightarrow> None),
                             expiresAt =
                               (case expiresIn of
                                  None \<Rightarrow> None
                                | Some n \<Rightarrow> if n \<noteq> 0 then Some (now e + n * 1000) else None),
                             pageTokens =
                               collect_pages
                                 (case pagesData of Ok (Some ps) \<Rightarrow> ps | _ \<Rightarrow> []) []\<rparr>))))"

section \<open>The state tables and the periodic cleanup\<close>

text \<open>
  \<^verbatim>\<open>OAuthTransaction\<close>, \<^verbatim>\<open>AuthCode\<close> and the anonymous entry types of
  \<^verbatim>\<open>registeredClients\<close> and \<^verbatim>\<open>tokenStore\<close>. Several of them have fields of the same
  name (\<^verbatim>\<open>clientId\<close>, \<^verbatim>\<open>redirectUri\<close>, \<^verbatim>\<open>createdAt\<close>, \<^verbatim>\<open>metaTokens\<close>), so every
  field carries a prefix for its record. \<open>rc_redirectUris\<close> is whatever JSON value the
  registration request carried.
\<close>

record OAuthTransaction =
  txn_clientId :: string
  txn_redirectUri :: string
  txn_state :: string
  txn_codeChallenge :: "string option"
  txn_codeChallengeMethod :: "string option"
  txn_scope :: "string list"
  txn_createdAt :: int

record AuthCode =
  ac_clientId :: string
  ac_redirectUri :: string
  ac_metaTokens :: MetaSession
  ac_createdAt :: int
  ac_used :: bool

record RegisteredClient =
  rc_redirectUris :: json
  rc_createdAt :: int

record TokenRecord =
  tok_metaTokens :: MetaSession
  tok_createdAt :: int

text \<open>
  The four module-level \<^verbatim>\<open>Map\<close>s. A \<^verbatim>\<open>Map\<close> keeps its entries in insertion order
  with one entry per key: \<^verbatim>\<open>get\<close> is \<open>map_of\<close>, \<^verbatim>\<open>set\<close> is \<open>AList.update\<close>,
  \<^verbatim>\<open>delete\<close> is \<open>AList.delete\<close>.
\<close>

record store =
  transactions :: "(string \<times> OAuthTransaction) list"
  authCodes :: "(string \<times> AuthCode) list"
  registeredClients :: "(string \<times> RegisteredClient) list"
  tokenStore :: "(string \<times> TokenRecord) list"

definition empty_store :: store where
  "empty_store = \<lparr>transactions = [], authCodes = [], registeredClients = [], tokenStore = []\<rparr>"

definition keys_distinct :: "store \<Rightarrow> bool" where
  "keys_distinct s =
     (distinct (map fst (transactions s)) \<and> distinct (map fst (authCodes s)) \<and>
      distinct (map fst (registeredClients s)) \<and> distinct (map fst (tokenStore s)))"

text \<open>
  One line of the cleanup timer,
  \<^verbatim>\<open>for (const [k, v] of m.entries()) if (now - v.createdAt > ttl) m.delete(k)\<close>:
  the entries still to visit, and the map as it is so far.
\<close>

fun sweep :: "('v \<Rightarrow> int) \<Rightarrow> int \<Rightarrow> int \<Rightarrow> (string \<times> 'v) list \<Rightarrow> (string \<times> 'v) list \<Rightarrow> (string \<times> 'v) list" where
  "sweep created ttl t [] m = m"
| "sweep created ttl t ((k, v) # es) m =
     sweep created ttl t es (if t - created v > ttl then AList.delete k m else m)"

text \<open>The body of the \<^verbatim>\<open>setInterval\<close> callback, run at time \<open>t\<close> (milliseconds).\<close>

definition cleanup :: "int \<Rightarrow> store \<Rightarrow> store" where
  "cleanup t s =
     s\<lparr>transactions := sweep txn_createdAt 600000 t (transactions s) (transactions s),
       authCodes := sweep ac_createdAt 300000 t (authCodes s) (authCodes s),
       tokenStore := sweep tok_createdAt 3600000 t (tokenStore s) (tokenStore s)\<rparr>"

section \<open>The HTTP server\<close>

text \<open>
  A request as the handler reads it: \<^verbatim>\<open>req.method\<close>, \<^verbatim>\<open>url.pathname\<close>, the entries of
  \<^verbatim>\<open>url.searchParams\<close>, and the body that \<^verbatim>\<open>readBody()\<close> collects.
\<close>

record request =
  req_method :: string
  pathname :: string
  searchParams :: "(string \<times> string) list"
  body :: string

text \<open>
  What the handler does with the response object:
  \<^item> \<open>Json status data\<close> is \<^verbatim>\<open>json(data, status)\<close>;
  \<^item> \<open>Redirect target params\<close> is \<^verbatim>\<open>res.writeHead(302, { Location })\<close>, the location
    being the URL \<open>target\<close> after \<^verbatim>\<open>searchParams.set\<close> of each parameter in order;
  \<^item> \<open>NoContent\<close> is the 204 of the CORS preflight;
  \<^item> \<open>Unhandled\<close>: the handler threw outside any \<^verbatim>\<open>try\<close>, and no response was written.
\<close>

datatype response =
    Json nat json
  | Redirect string "(string \<times> string) list"
  | NoContent
  | Unhandled

text \<open>A string that may be \<^verbatim>\<open>null\<close> is truthy when it is a non-empty string.\<close>

definition present :: "string option \<Rightarrow> bool" where
  "present v = (case v of None \<Rightarrow> False | Some x \<Rightarrow> x \<noteq> [])"

definition oauth_error :: "string \<Rightarrow> string \<Rightarrow> json" where
  "oauth_error err description =
     JObj [(''error'', JStr err), (''error_description'', JStr description)]"

definition str_array :: "string list \<Rightarrow> json" where
  "str_array xs = JArr (map JStr xs)"

definition discovery :: "config \<Rightarrow> json" where
  "discovery cfg =
     JObj [(''issuer'', JStr (baseUrl cfg)),
           (''authorization_endpoint'', JStr (baseUrl cfg @ ''/oauth/authorize'')),
           (''token_endpoint'', JStr (baseUrl cfg @ ''/oauth/token'')),
           (''registration_endpoint'', JStr (baseUrl cfg @ ''/oauth/register'')),
           (''response_types_supported'', str_array [''code'']),
           (''grant_types_supported'', str_array [''authorization_code'', ''refresh_token'']),
           (''code_challenge_methods_supported'', str_array [''S256'', ''plain'']),
           (''scopes_supported'', str_array FACEBOOK_SCOPES),
           (''token_endpoint_auth_methods_supported'',
              str_array [''client_secret_post'', ''client_secret_basic''])]"

text \<open>
  \<^verbatim>\<open>POST /oauth/register\<close>. \<^verbatim>\<open>JSON.parse\<close> is outside any \<^verbatim>\<open>try\<close>, and so is
  \<^verbatim>\<open>body.redirect_uris\<close> on a body that parsed to \<^verbatim>\<open>null\<close>. \<^verbatim>\<open>JSON.stringify\<close> leaves
  out a property whose value is \<^verbatim>\<open>undefined\<close>.
\<close>

definition register_endpoint :: "platform \<Rightarrow> env \<Rightarrow> store \<Rightarrow> request \<Rightarrow> response \<times> store" where
  "register_endpoint P e s req =
     (case json_parse P (body req) of
        None \<Rightarrow> (Unhandled, s)
      | Some JNull \<Rightarrow> (Unhandled, s)
      | Some b \<Rightarrow>
         (let clientId = rand16 e;
              uris = js_prop b ''redirect_uris''
          in (Json 200
                (JObj ([(''client_id'', JStr clientId), (''client_secret'', JStr clientId),
                        (''client_id_issued_at'', JNum (of_int (now e div 1000))),
                        (''client_secret_expires_at'', JNum 0)]
                       @ (case uris of None \<Rightarrow> [] | Some u \<Rightarrow> [(''redirect_uris'', u)])
                       @ [(''grant_types'', str_array [''authorization_code'', ''refresh_token'']),
                          (''response_types'', str_array [''code'']),
                          (''token_endpoint_auth_method'', JStr ''client_secret_post'')])),
              s\<lparr>registeredClients :=
                  AList.update clientId
                    \<lparr>rc_redirectUris =
                       (case uris of None \<Rightarrow> JArr [] | Some u \<Rightarrow> if truthy uris then u else JArr []),
                     rc_createdAt = now e\<rparr>
                    (registeredClients s)\<rparr>)))"

text \<open>\<^verbatim>\<open>/oauth/authorize\<close>, for any method but \<^verbatim>\<open>OPTIONS\<close>.\<close>

definition authorize_endpoint :: "config \<Rightarrow> env \<Rightarrow> store \<Rightarrow> request \<Rightarrow> response \<times> store" where
  "authorize_endpoint cfg e s req =
     (let clientId = map_of (searchParams req) ''client_id'';
          redirectUri = map_of (searchParams req) ''redirect_uri'';
          responseType = map_of (searchParams req) ''response_type'';
          state = (case map_of (searchParams req) ''state'' of
                     None \<Rightarrow> rand16 e
                   | Some st \<Rightarrow> if st = [] then rand16 e else st);
          scope = map_of (searchParams req) ''scope'';
          codeChallenge = map_of (searchParams req) ''code_challenge'';
          codeChallengeMethod = map_of (searchParams req) ''code_challenge_method''
      in case (clientId, redirectUri) of
           (Some cid, Some ruri) \<Rightarrow>
             if cid = [] \<or> ruri = [] \<or> responseType \<noteq> Some ''code''
             then (Json 400 (oauth_error ''invalid_request'' ''Missing required parameters''), s)
             else
               (let txnId = rand32 e
                in (Redirect FACEBOOK_AUTH_ENDPOINT
                      [(''client_id'', appId cfg),
                       (''redirect_uri'', baseUrl cfg @ ''/oauth/callback''),
                       (''state'', txnId),
                       (''scope'', join '','' FACEBOOK_SCOPES),
                       (''response_type'', ''code'')],
                    s\<lparr>transactions :=
                        AList.update txnId
                          \<lparr>txn_clientId = cid, txn_redirectUri = ruri, txn_state = state,
                           txn_codeChallenge =
                             (if present codeChallenge then codeChallenge else None),
                           txn_codeChallengeMethod =
                             (if present codeChallengeMethod then codeChallengeMethod else None),
                           txn_scope =
                             (case scope of
                                None \<Rightarrow> FACEBOOK_SCOPES
                              | Some sc \<Rightarrow> split CHR '' '' sc),
                           txn_createdAt = now e\<rparr>
                          (transactions s)\<rparr>))
         | _ \<Rightarrow> (Json 400 (oauth_error ''invalid_request'' ''Missing required parameters''), s))"

text \<open>
  \<^verbatim>\<open>/oauth/callback\<close>. The handler is taken as one atomic step, the \<^verbatim>\<open>await\<close> of the
  exchange included. \<^verbatim>\<open>new URL(txn.redirectUri)\<close> throws on a string that is not a URL:
  in the \<^verbatim>\<open>try\<close> block that happens after the code was stored and the transaction
  deleted, and control passes to the \<^verbatim>\<open>catch\<close> block, where the same call throws
  again, now outside any \<^verbatim>\<open>try\<close>.
\<close>

definition callback_endpoint :: "platform \<Rightarrow> config \<Rightarrow> env \<Rightarrow> store \<Rightarrow> request \<Rightarrow> response \<times> store" where
  "callback_endpoint P cfg e s req =
     (let code = map_of (searchParams req) ''code'';
          txnId = map_of (searchParams req) ''state'';
          error = map_of (searchParams req) ''error'';
          errorDesc = map_of (searchParams req) ''error_description''
      in if present error
         then (Json 400
                 (JObj [(''error'', (case error of None \<Rightarrow> JNull | Some er \<Rightarrow> JStr er)),
                        (''error_description'',
                           (case errorDesc of None \<Rightarrow> JNull | Some d \<Rightarrow> JStr d))]), s)
         else case (code, txnId) of
           (Some c, Some tid) \<Rightarrow>
             if c = [] \<or> tid = []
             then (Json 400 (oauth_error ''invalid_request'' ''Missing code or state''), s)
             else
               (case map_of (transactions s) tid of
                  None \<Rightarrow>
                    (Json 400 (oauth_error ''invalid_request'' ''Invalid or expired state''), s)
                | Some txn \<Rightarrow>
                   (case exchangeFacebookCode cfg e c (baseUrl cfg @ ''/oauth/callback'') of
                      Inr metaTokens \<Rightarrow>
                        (let ourCode = rand32 e;
                             s' = s\<lparr>authCodes :=
                                      AList.update ourCode
                                        \<lparr>ac_clientId = txn_clientId txn,
                                         ac_redirectUri = txn_redirectUri txn,
                                         ac_metaTokens = metaTokens,
                                         ac_createdAt = now e, ac_used = False\<rparr>
                                        (authCodes s),
                                    transactions := AList.delete tid (transactions s)\<rparr>
                         in if url_ok P (txn_redirectUri txn)
                            then (Redirect (txn_redirectUri txn)
                                    [(''code'', ourCode), (''state'', txn_state txn)], s')
                            else (Unhandled, s'))
                    | Inl err \<Rightarrow>
                        if url_ok P (txn_redirectUri txn)
                        then (Redirect (txn_redirectUri txn)
                                [(''error'', ''server_error''),
                                 (''error_description'', fault_string err),
                                 (''state'', txn_state txn)], s)
                        else (Unhandled, s)))
         | _ \<Rightarrow> (Json 400 (oauth_error ''invalid_request'' ''Missing code or state''), s))"

text \<open>
  \<^verbatim>\<open>POST /oauth/token\<close>. Nothing is awaited between the lookup of the code and the two
  \<^verbatim>\<open>set\<close> calls, so the step is atomic in the server as well.
\<close>

definition token_endpoint :: "platform \<Rightarrow> config \<Rightarrow> env \<Rightarrow> store \<Rightarrow> request \<Rightarrow> response \<times> store" where
  "token_endpoint P cfg e s req =
     (let params = form_parse P (body req);
          grantType = map_of params ''grant_type'';
          code = map_of params ''code''
      in if grantType = Some ''authorization_code''
         then
           (case code of
              None \<Rightarrow> (Json 400 (oauth_error ''invalid_request'' ''Missing code''), s)
            | Some c \<Rightarrow>
               if c = [] then (Json 400 (oauth_error ''invalid_request'' ''Missing code''), s)
               else
                 (case map_of (authCodes s) c of
                    None \<Rightarrow>
                      (Json 400 (oauth_error ''invalid_grant'' ''Invalid or expired code''), s)
                  | Some authCode \<Rightarrow>
                     if ac_used authCode
                     then (Json 400 (oauth_error ''invalid_grant'' ''Code already used''), s)
                     else
                       (let jti = rand16 e;
                            accessToken =
                              createJWT P (JWT_SECRET cfg) (now e) (rand16_jwt e)
                                [(''sub'', JStr jti),
                                 (''scope'', JStr (join '' '' FACEBOOK_SCOPES))] 3600
                        in (Json 200
                              (JObj [(''access_token'', JStr accessToken),
                                     (''token_type'', JStr ''Bearer''),
                                     (''expires_in'', JNum 3600),
                                     (''scope'', JStr (join '' '' FACEBOOK_SCOPES))]),
                            s\<lparr>authCodes :=
                                AList.update c (authCode\<lparr>ac_used := True\<rparr>) (authCodes s),
                              tokenStore :=
                                AList.update jti
                                  \<lparr>tok_metaTokens = ac_metaTokens authCode,
                                   tok_createdAt = now e\<rparr>
                                  (tokenStore s)\<rparr>))))
         else (Json 400 (JObj [(''error'', JStr ''unsupported_grant_type'')]), s))"

text \<open>
  The request listener of \<^verbatim>\<open>createOAuthServer\<close>: the chain of \<^verbatim>\<open>if\<close>s in its order.
\<close>

definition createOAuthServer :: "platform \<Rightarrow> config \<Rightarrow> env \<Rightarrow> store \<Rightarrow> request \<Rightarrow> response \<times> store" where
  "createOAuthServer P cfg e s req =
     (if req_method req = ''OPTIONS'' then (NoContent, s)
      else if pathname req = ''/.well-known/oauth-authorization-server''
        then (Json 200 (discovery cfg), s)
      else if pathname req = ''/oauth/register'' \<and> req_method req = ''POST''
        then register_endpoint P e s req
      else if pathname req = ''/oauth/authorize'' then authorize_endpoint cfg e s req
      else if pathname req = ''/oauth/callback'' then callback_endpoint P cfg e s req
      else if pathname req = ''/oauth/token'' \<and> req_method req = ''POST''
        then token_endpoint P cfg e s req
      else if pathname req = ''/health''
        then (Json 200 (JObj [(''status'', JStr ''ok''), (''oauth'', JStr ''ready'')]), s)
      else (Json 404 (JObj [(''error'', JStr ''not_found'')]), s))"

text \<open>
  The life of the process: requests, each with what it reads from outside, and runs of
  the cleanup timer, in the order in which they happen.
\<close>

datatype event = Request env request | Cleanup int

fun step :: "platform \<Rightarrow> config \<Rightarrow> store \<Rightarrow> event \<Rightarrow> store" where
  "step P cfg s (Request e req) = snd (createOAuthServer P cfg e s req)"
| "step P cfg s (Cleanup t) = cleanup t s"

fun run :: "platform \<Rightarrow> config \<Rightarrow> store \<Rightarrow> event list \<Rightarrow> store" where
  "run P cfg s [] = s"
| "run P cfg s (ev # evs) = run P cfg (step P cfg s ev) evs"

section \<open>Auxiliary notions\<close>

text \<open>The keys that a run of \<open>sweep\<close> over the entries \<open>es\<close> deletes.\<close>

definition old_keys :: "('v \<Rightarrow> int) \<Rightarrow> int \<Rightarrow> int \<Rightarrow> (string \<times> 'v) list \<Rightarrow> string set" where
  "old_keys created ttl t es = set (map fst (filter (\<lambda>e. t - created (snd e) > ttl) es))"

text \<open>
  A platform behaves on the token with payload \<open>pl\<close> when none of its three parts holds a
  dot and the encoded payload decodes to \<open>pl\<close> again.
\<close>

definition codec_ok :: "platform \<Rightarrow> string \<Rightarrow> json \<Rightarrow> bool" where
  "codec_ok P secret pl =
     (let headerB64 = encode P (JObj [(''alg'', JStr ''HS256''), (''typ'', JStr ''JWT'')]);
          payloadB64 = encode P pl
      in CHR ''.'' \<notin> set headerB64 \<and> CHR ''.'' \<notin> set payloadB64 \<and>
         CHR ''.'' \<notin> set (hmac P secret (headerB64 @ ''.'' @ payloadB64)) \<and>
         decode P payloadB64 = Some pl)"


text \<open>The transaction that the authorization endpoint stores.\<close>

definition new_transaction :: "env \<Rightarrow> request \<Rightarrow> string \<Rightarrow> string \<Rightarrow> OAuthTransaction" where
  "new_transaction e req cid ruri =
     \<lparr>txn_clientId = cid, txn_redirectUri = ruri,
      txn_state = (case map_of (searchParams req) ''state'' of
                     None \<Rightarrow> rand16 e
                   | Some st \<Rightarrow> if st = [] then rand16 e else st),
      txn_codeChallenge =
        (if present (map_of (searchParams req) ''code_challenge'')
         then map_of (searchParams req) ''code_challenge'' else None),
      txn_codeChallengeMethod =
        (if present (map_of (searchParams req) ''code_challenge_method'')
         then map_of (searchParams req) ''code_challenge_method'' else None),
      txn_scope =
        (case map_of (searchParams req) ''scope'' of
           None \<Rightarrow> FACEBOOK_SCOPES
         | Some sc \<Rightarrow> split CHR '' '' sc),
      txn_createdAt = now e\<rparr>"

text \<open>The reply of the registration endpoint and the client record it stores.\<close>

definition registration_reply :: "env \<Rightarrow> json \<Rightarrow> json" where
  "registration_reply e b =
     JObj ([(''client_id'', JStr (rand16 e)), (''client_secret'', JStr (rand16 e)),
            (''client_id_issued_at'', JNum (of_int (now e div 1000))),
            (''client_secret_expires_at'', JNum 0)]
           @ (case js_prop b ''redirect_uris'' of None \<Rightarrow> [] | Some u \<Rightarrow> [(''redirect_uris'', u)])
           @ [(''grant_types'', str_array [''authorization_code'', ''refresh_token'']),
              (''response_types'', str_array [''code'']),
              (''token_endpoint_auth_method'', JStr ''client_secret_post'')])"

definition new_client :: "env \<Rightarrow> json \<Rightarrow> RegisteredClient" where
  "new_client e b =
     \<lparr>rc_redirectUris =
        (case js_prop b ''redirect_uris'' of
           None \<Rightarrow> JArr []
         | Some u \<Rightarrow> if truthy (js_prop b ''redirect_uris'') then u else JArr []),
      rc_createdAt = now e\<rparr>"

text \<open>A fetch whose promise resolves and whose body parses.\<close>

definition answered :: "'a fetched \<Rightarrow> bool" where
  "answered r = (case r of Failed _ \<Rightarrow> False | NotJson _ _ \<Rightarrow> False | _ \<Rightarrow> True)"

text \<open>The four requests of the exchange, as the code builds them.\<close>

definition code_request :: "config \<Rightarrow> string \<Rightarrow> string \<Rightarrow> url" where
  "code_request cfg code redirectUri =
     (FACEBOOK_TOKEN_ENDPOINT,
      [(''client_id'', appId cfg), (''client_secret'', appSecret cfg),
       (''redirect_uri'', redirectUri), (''code'', code)])"

definition upgrade_request :: "config \<Rightarrow> string \<Rightarrow> url" where
  "upgrade_request cfg short =
     (FACEBOOK_TOKEN_ENDPOINT,
      [(''grant_type'', ''fb_exchange_token''), (''client_id'', appId cfg),
       (''client_secret'', appSecret cfg), (''fb_exchange_token'', short)])"

definition user_request :: "string \<Rightarrow> url" where
  "user_request tok =
     (''https://graph.facebook.com/v21.0/me'', [(''access_token'', tok)])"

definition pages_request :: "string \<Rightarrow> url" where
  "pages_request tok =
     (''https://graph.facebook.com/v21.0/me/accounts'',
      [(''fields'', ''id,name,category,access_token,instagram_business_account''),
       (''access_token'', tok)])"

text \<open>\<^verbatim>\<open>expiresIn ? Date.now() + expiresIn * 1000 : undefined\<close>.\<close>

definition expiry :: "int \<Rightarrow> int option \<Rightarrow> int option" where
  "expiry t expiresIn =
     (case expiresIn of None \<Rightarrow> None | Some n \<Rightarrow> if n \<noteq> 0 then Some (t + n * 1000) else None)"

text \<open>
  A table of authorization codes with the client identifier and redirect URI of every
  record replaced, and a table of transactions with the PKCE challenge and its method
  of every record replaced.
\<close>

definition rebind_codes :: "(string \<Rightarrow> string) \<Rightarrow> (string \<Rightarrow> string) \<Rightarrow> (string \<times> AuthCode) list \<Rightarrow> (string \<times> AuthCode) list" where
  "rebind_codes f g m = map (\<lambda>kv. (fst kv, (snd kv)\<lparr>ac_clientId := f (fst kv), ac_redirectUri := g (fst kv)\<rparr>)) m"

definition rechallenge :: "(string \<Rightarrow> string option) \<Rightarrow> (string \<Rightarrow> string option) \<Rightarrow> (string \<times> OAuthTransaction) list \<Rightarrow> (string \<times> OAuthTransaction) list" where
  "rechallenge x y m =
     map (\<lambda>kv. (fst kv, (snd kv)\<lparr>txn_codeChallenge := x (fst kv), txn_codeChallengeMethod := y (fst kv)\<rparr>)) m"

text \<open>
  A code is spent in a store when no record is stored for it or the stored record is
  marked used. An event does not mint the code \<open>c\<close> again when it is a run of the cleanup
  or a request whose 32 random bytes do not print as \<open>c\<close>.
\<close>

definition spent :: "string \<Rightarrow> store \<Rightarrow> bool" where
  "spent c s = (case map_of (authCodes s) c of None \<Rightarrow> True | Some ac \<Rightarrow> ac_used ac)"

fun mints_other :: "string \<Rightarrow> event \<Rightarrow> bool" where
  "mints_other c (Request e req) = (rand32 e \<noteq> c)"
| "mints_other c (Cleanup t) = True"

section \<open>Test vectors\<close>

text \<open>
  A concrete platform for evaluating the definitions: the encodings and signatures of
  the few values used below are the ones Node computes (base64url of the JSON text,
  HMAC-SHA256 under the key \<^verbatim>\<open>demo-secret\<close>); the form parser splits at \<^verbatim>\<open>&\<close> and at
  the first \<^verbatim>\<open>=\<close>, which is what \<^verbatim>\<open>URLSearchParams\<close> does on a body without escapes.
  No sum below needs rounding (the one that is not an integer is 1700000001.5, a double).
\<close>

definition tv_secret :: string where
  "tv_secret = ''demo-secret''"

definition tv_rnd :: string where
  "tv_rnd = ''00112233445566778899aabbccddeeff''"

definition tv_sub :: string where
  "tv_sub = ''0123456789abcdef0123456789abcdef''"

definition tv_header :: json where
  "tv_header = JObj [(''alg'', JStr ''HS256''), (''typ'', JStr ''JWT'')]"

definition tv_header_b64 :: string where
  "tv_header_b64 = ''eyJhbGciOiJIUzI1NiIsInR5cCI6IkpXVCJ9''"

definition tv_payload1 :: json where
  "tv_payload1 =
     JObj [(''sub'', JStr ''u1''), (''iat'', JNum 1700000000), (''exp'', JNum 1700000001),
           (''jti'', JStr tv_rnd)]"

definition tv_payload1_b64 :: string where
  "tv_payload1_b64 =
     ''eyJzdWIiOiJ1MSIsImlhdCI6MTcwMDAwMDAwMCwiZXhwIjoxNzAwMDAwMDAxLCJqdGkiOiIwMDExMjIzMzQ0NTU2Njc3ODg5OWFhYmJjY2RkZWVmZiJ9''"

definition tv_sig1 :: string where
  "tv_sig1 = ''KJrUtMBamdnRbTbRaako9h0gx6t8hGiCQCTJWRr2cLA''"

definition tv_payload2 :: json where
  "tv_payload2 =
     JObj [(''exp'', JNum 1700000001), (''iat'', JNum 1700000000), (''jti'', JStr tv_rnd)]"

definition tv_payload2_b64 :: string where
  "tv_payload2_b64 =
     ''eyJleHAiOjE3MDAwMDAwMDEsImlhdCI6MTcwMDAwMDAwMCwianRpIjoiMDAxMTIyMzM0NDU1NjY3Nzg4OTlhYWJiY2NkZGVlZmYifQ''"

definition tv_sig2 :: string where
  "tv_sig2 = ''ygQQBfPVtc-WCVl__2iiSc9UP6-rzCiW4UjHpFBXtgM''"

definition tv_payload3 :: json where
  "tv_payload3 =
     JObj [(''sub'', JStr tv_sub), (''scope'', JStr (join '' '' FACEBOOK_SCOPES)),
           (''iat'', JNum 1700000000), (''exp'', JNum 1700003600), (''jti'', JStr tv_rnd)]"

definition tv_payload3_b64 :: string where
  "tv_payload3_b64 =
     ''eyJzdWIiOiIwMTIzNDU2Nzg5YWJjZGVmMDEyMzQ1Njc4OWFiY2RlZiIsInNjb3BlIjoicGFnZXNfc2hvd19saXN0IHBhZ2VzX3JlYWRfZW5nYWdlbWVudCBwYWdlc19tYW5hZ2VfcG9zdHMgcGFnZXNfcmVhZF91c2VyX2NvbnRlbnQgcGFnZXNfbWFuYWdlX2VuZ2FnZW1lbnQgcmVhZF9pbnNpZ2h0cyBpbnN0YWdyYW1fYmFzaWMgaW5zdGFncmFtX2NvbnRlbnRfcHVibGlzaCBpbnN0YWdyYW1fbWFuYWdlX2NvbW1lbnRzIGluc3RhZ3JhbV9tYW5hZ2VfaW5zaWdodHMiLCJpYXQiOjE3MDAwMDAwMDAsImV4cCI6MTcwMDAwMzYwMCwianRpIjoiMDAxMTIyMzM0NDU1NjY3Nzg4OTlhYWJiY2NkZGVlZmYifQ''"

definition tv_sig3 :: string where
  "tv_sig3 = ''xdwt7OkP7Nm1pdc30kwmAK4B63mTkfwqW03KQfnUa5U''"

definition tv_payload4 :: json where
  "tv_payload4 =
     JObj [(''sub'', JStr ''u1''), (''iat'', JNum 1700000000), (''exp'', JNum (3400000003 / 2)),
           (''jti'', JStr tv_rnd)]"

definition tv_payload4_b64 :: string where
  "tv_payload4_b64 =
     ''eyJzdWIiOiJ1MSIsImlhdCI6MTcwMDAwMDAwMCwiZXhwIjoxNzAwMDAwMDAxLjUsImp0aSI6IjAwMTEyMjMzNDQ1NTY2Nzc4ODk5YWFiYmNjZGRlZWZmIn0''"

definition tv_sig4 :: string where
  "tv_sig4 = ''8gaJRw3J0HkPGHjAHb-_VE23ZLzqfQI_5Gb2BngdZ6c''"

definition tv_encode :: "json \<Rightarrow> string" where
  "tv_encode j =
     (if j = tv_header then tv_header_b64
      else if j = tv_payload1 then tv_payload1_b64
      else if j = tv_payload2 then tv_payload2_b64
      else if j = tv_payload3 then tv_payload3_b64
      else if j = tv_payload4 then tv_payload4_b64
      else [])"

definition tv_decode :: "string \<Rightarrow> json option" where
  "tv_decode x =
     (if x = tv_header_b64 then Some tv_header
      else if x = tv_payload1_b64 then Some tv_payload1
      else if x = tv_payload2_b64 then Some tv_payload2
      else if x = tv_payload3_b64 then Some tv_payload3
      else if x = tv_payload4_b64 then Some tv_payload4
      else None)"

definition tv_hmac :: "string \<Rightarrow> string \<Rightarrow> string" where
  "tv_hmac key msg =
     (if key = tv_secret \<and> msg = tv_header_b64 @ ''.'' @ tv_payload1_b64 then tv_sig1
      else if key = tv_secret \<and> msg = tv_header_b64 @ ''.'' @ tv_payload2_b64 then tv_sig2
      else if key = tv_secret \<and> msg = tv_header_b64 @ ''.'' @ tv_payload3_b64 then tv_sig3
      else if key = tv_secret \<and> msg = tv_header_b64 @ ''.'' @ tv_payload4_b64 then tv_sig4
      else [])"

definition tv_form_parse :: "string \<Rightarrow> (string \<times> string) list" where
  "tv_form_parse b =
     map (\<lambda>kv. (takeWhile (\<lambda>c. c \<noteq> CHR ''='') kv, drop 1 (dropWhile (\<lambda>c. c \<noteq> CHR ''='') kv)))
       (filter (\<lambda>kv. kv \<noteq> []) (split CHR ''&'' b))"

definition tv_platform :: platform where
  "tv_platform =
     \<lparr>hmac = tv_hmac, encode = tv_encode, decode = tv_decode,
      json_parse = (\<lambda>b. if b = ''{}'' then Some (JObj []) else None),
      form_parse = tv_form_parse,
      url_ok = (\<lambda>u. take 8 u = ''https://''),
      to_number = (\<lambda>v. None),
      nearest = (\<lambda>x. x)\<rparr>"

definition tv_config :: config where
  "tv_config =
     \<lparr>appId = ''1234567890'', appSecret = ''app-secret'',
      baseUrl = ''http://localhost:3000'', JWT_SECRET = tv_secret\<rparr>"

definition tv_short :: fb_tokens where
  "tv_short = \<lparr>access_token = ''short-lived'', token_type = ''bearer'', expires_in = Some 3600\<rparr>"

definition tv_long :: fb_tokens where
  "tv_long = \<lparr>access_token = ''long-lived'', token_type = ''bearer'', expires_in = Some 5184000\<rparr>"

definition tv_page :: fb_page where
  "tv_page =
     \<lparr>page_id = ''1001'', page_name = ''Page'', page_category = None,
      page_access_token = ''page-token'', instagram_business_account = None\<rparr>"

text \<open>
  An environment at time \<open>t\<close> whose 32 random bytes print as \<open>r\<close> and in which upstream
  answers the token upgrade (the call that carries \<^verbatim>\<open>grant_type\<close>) with \<open>upgrade\<close>.
\<close>

definition tv_env :: "int \<Rightarrow> string \<Rightarrow> fb_tokens fetched \<Rightarrow> env" where
  "tv_env t r upgrade =
     \<lparr>now = t, rand16 = tv_sub, rand16_jwt = tv_rnd, rand32 = r,
      fetch_tokens =
        (\<lambda>u. if map_of (snd u) ''grant_type'' = Some ''fb_exchange_token'' then upgrade
              else if map_of (snd u) ''code'' = Some ''upstream_code_1'' then Ok tv_short
              else HttpError (Some ''Invalid verification code'')),
      fetch_user = (\<lambda>u. Ok \<lparr>user_id = ''42'', user_name = Some ''User''\<rparr>),
      fetch_pages = (\<lambda>u. Ok (Some [tv_page]))\<rparr>"

definition tv_txn :: string where
  "tv_txn = ''dHhuLWlkZW50aWZpZXItMDAwMDAwMDAwMDAwMDAwMDA''"

definition tv_code :: string where
  "tv_code = ''Y29kZS1pZGVudGlmaWVyLTAwMDAwMDAwMDAwMDAwMDA''"

definition tv_authorize :: request where
  "tv_authorize =
     \<lparr>req_method = ''GET'', pathname = ''/oauth/authorize'',
      searchParams = [(''client_id'', ''c1''), (''redirect_uri'', ''https://client/cb''),
                      (''response_type'', ''code''), (''state'', ''s1''),
                      (''code_challenge'', ''challenge''), (''code_challenge_method'', ''S256'')],
      body = []\<rparr>"

definition tv_callback :: request where
  "tv_callback =
     \<lparr>req_method = ''GET'', pathname = ''/oauth/callback'',
      searchParams = [(''code'', ''upstream_code_1''), (''state'', tv_txn)], body = []\<rparr>"

definition tv_token :: request where
  "tv_token =
     \<lparr>req_method = ''POST'', pathname = ''/oauth/token'', searchParams = [],
      body = ''grant_type=authorization_code&code='' @ tv_code\<rparr>"

text \<open>
  The store after the authorization request, after the callback that follows it, and
  after the redemption of the code.
\<close>

definition tv_store1 :: store where
  "tv_store1 =
     step tv_platform tv_config empty_store
       (Request (tv_env 1700000000000 tv_txn (Ok tv_long)) tv_authorize)"

definition tv_store2 :: store where
  "tv_store2 =
     step tv_platform tv_config tv_store1
       (Request (tv_env 1700000000500 tv_code (Ok tv_long)) tv_callback)"

definition tv_store3 :: store where
  "tv_store3 =
     step tv_platform tv_config tv_store2
       (Request (tv_env 1700000000900 tv_code (Ok tv_long)) tv_token)"

text \<open>The authorization code record that the callback of the test run stores.\<close>

definition tv_issued :: AuthCode where
  "tv_issued =
     \<lparr>ac_clientId = ''c1'', ac_redirectUri = ''https://client/cb'',
      ac_metaTokens =
        \<lparr>userAccessToken = ''long-lived'', userId = Some ''42'', userName = Some ''User'',
         expiresAt = Some 1705184000500,
         pageTokens =
           [(''1001'',
             \<lparr>accessToken = ''page-token'', name = ''Page'', category = None,
              instagramBusinessAccountId = None\<rparr>)]\<rparr>,
      ac_createdAt = 1700000000500, ac_used = False\<rparr>"

text \<open>A callback that carries a code, a state and an error parameter.\<close>

definition tv_denied :: request where
  "tv_denied =
     \<lparr>req_method = ''GET'', pathname = ''/oauth/callback'',
      searchParams = [(''code'', ''upstream_code_1''), (''state'', tv_txn),
                      (''error'', ''access_denied'')],
      body = []\<rparr>"

text \<open>The transaction of the test run, and an environment in which upstream refuses the upgrade.\<close>

definition tv_txn_record :: OAuthTransaction where
  "tv_txn_record =
     \<lparr>txn_clientId = ''c1'', txn_redirectUri = ''https://client/cb'', txn_state = ''s1'',
      txn_codeChallenge = Some ''challenge'', txn_codeChallengeMethod = Some ''S256'',
      txn_scope = FACEBOOK_SCOPES, txn_createdAt = 1700000000000\<rparr>"

definition tv_refused :: env where
  "tv_refused = tv_env 1700000000500 tv_code (HttpError (Some ''upgrade refused''))"

text \<open>The token request of the test run with further parameters in its body.\<close>

definition tv_token_extra :: request where
  "tv_token_extra =
     tv_token\<lparr>body := body tv_token @
       ''&code_verifier=wrong&client_id=someone-else&client_secret=none&redirect_uri=https://elsewhere/cb''\<rparr>"

section \<open>The cleanup removes exactly the expired entries\<close>

lemma delete_filter: "AList.delete k m = filter (\<lambda>kv. fst kv \<noteq> k) m"
  by (induction m) auto

lemma sweep_filter:
  "sweep created ttl t es m = filter (\<lambda>kv. fst kv \<notin> old_keys created ttl t es) m"
proof (induction es arbitrary: m)
  case Nil
  show ?case by (simp add: old_keys_def)
next
  case (Cons e es)
  obtain k v where e: "e = (k, v)" by (cases e)
  show ?case
  proof (cases "t - created v > ttl")
    case True
    then have ok: "old_keys created ttl t ((k, v) # es) = insert k (old_keys created ttl t es)"
      by (simp add: old_keys_def)
    show ?thesis
      by (simp add: e True Cons.IH delete_filter ok conj_commute)
  next
    case False
    then have ok: "old_keys created ttl t ((k, v) # es) = old_keys created ttl t es"
      by (simp add: old_keys_def)
    show ?thesis
      by (simp add: e False Cons.IH ok)
  qed
qed

lemma old_keys_self:
  assumes "distinct (map fst m)" and "kv \<in> set m"
  shows "fst kv \<in> old_keys created ttl t m \<longleftrightarrow> t - created (snd kv) > ttl"
proof
  assume "fst kv \<in> old_keys created ttl t m"
  then obtain e where e: "e \<in> set m" "t - created (snd e) > ttl" "fst e = fst kv"
    by (auto simp: old_keys_def)
  have "snd e = snd kv"
    using assms e eq_key_imp_eq_value [of m "fst kv" "snd e" "snd kv"]
    by (cases e, cases kv) simp
  with e show "t - created (snd kv) > ttl" by simp
next
  assume "t - created (snd kv) > ttl"
  with assms(2) show "fst kv \<in> old_keys created ttl t m"
    by (auto simp: old_keys_def)
qed

lemma sweep_self:
  assumes "distinct (map fst m)"
  shows "sweep created ttl t m m = filter (\<lambda>kv. \<not> t - created (snd kv) > ttl) m"
  unfolding sweep_filter
  by (rule filter_cong) (simp_all add: old_keys_self [OF assms])

lemma map_of_filter_snd:
  "distinct (map fst m) \<Longrightarrow>
   map_of (filter (\<lambda>kv. Q (snd kv)) m) k =
     (case map_of m k of None \<Rightarrow> None | Some v \<Rightarrow> if Q v then Some v else None)"
proof (induction m)
  case Nil
  show ?case by simp
next
  case (Cons e m)
  obtain k' v' where e: "e = (k', v')" by (cases e)
  from Cons.prems have notin: "k' \<notin> fst ` set m" and d: "distinct (map fst m)"
    by (simp_all add: e)
  have none: "map_of (filter (\<lambda>kv. Q (snd kv)) m) k' = None"
    using notin by (force simp: map_of_eq_None_iff)
  show ?case
  proof (cases "k = k'")
    case True
    then show ?thesis by (simp add: e none)
  next
    case False
    then show ?thesis by (simp add: e Cons.IH [OF d])
  qed
qed

lemma distinct_filter_keys: "distinct (map fst m) \<Longrightarrow> distinct (map fst (filter Q m))"
  by (simp add: distinct_map_filter)

lemma tv_store1_eq:
  "tv_store1 =
     \<lparr>transactions =
        [(tv_txn,
          \<lparr>txn_clientId = ''c1'', txn_redirectUri = ''https://client/cb'', txn_state = ''s1'',
           txn_codeChallenge = Some ''challenge'', txn_codeChallengeMethod = Some ''S256'',
           txn_scope = FACEBOOK_SCOPES, txn_createdAt = 1700000000000\<rparr>)],
      authCodes = [], registeredClients = [], tokenStore = []\<rparr>"
  by code_simp

text \<open>
  Claim C8. A run of the cleanup at time \<open>t\<close> keeps, in each of the three swept tables
  and in their order, exactly the entries whose age \<open>t - createdAt\<close> does not exceed the
  table's time to live (600000 ms for transactions, 300000 ms for authorization codes,
  3600000 ms for token records), and leaves the table of registered clients as it is.
  Hence a transaction older than 600 seconds is gone after the run, and a callback that
  names it is answered with 400 \<^verbatim>\<open>invalid_request\<close>.
\<close>

theorem cleanup_exact:
  assumes "keys_distinct s"
  shows "transactions (cleanup t s) =
           filter (\<lambda>kv. \<not> t - txn_createdAt (snd kv) > 600000) (transactions s) \<and>
         authCodes (cleanup t s) =
           filter (\<lambda>kv. \<not> t - ac_createdAt (snd kv) > 300000) (authCodes s) \<and>
         tokenStore (cleanup t s) =
           filter (\<lambda>kv. \<not> t - tok_createdAt (snd kv) > 3600000) (tokenStore s) \<and>
         registeredClients (cleanup t s) = registeredClients s \<and>
         (map_of (transactions s) tid = Some txn \<and> t - txn_createdAt txn > 600000 \<longrightarrow>
            map_of (transactions (cleanup t s)) tid = None \<and>
            (req_method req = ''GET'' \<and> pathname req = ''/oauth/callback'' \<and>
             map_of (searchParams req) ''state'' = Some tid \<and> tid \<noteq> [] \<and>
             map_of (searchParams req) ''code'' = Some c \<and> c \<noteq> [] \<and>
             \<not> present (map_of (searchParams req) ''error'') \<longrightarrow>
             createOAuthServer P cfg e (cleanup t s) req =
               (Json 400 (oauth_error ''invalid_request'' ''Invalid or expired state''),
                cleanup t s)))"
proof -
  have d: "distinct (map fst (transactions s))" "distinct (map fst (authCodes s))"
    "distinct (map fst (tokenStore s))"
    using assms by (simp_all add: keys_distinct_def)
  have tx: "transactions (cleanup t s) =
           filter (\<lambda>kv. \<not> t - txn_createdAt (snd kv) > 600000) (transactions s)"
    by (simp add: cleanup_def sweep_self [OF d(1)])
  have ac: "authCodes (cleanup t s) =
           filter (\<lambda>kv. \<not> t - ac_createdAt (snd kv) > 300000) (authCodes s)"
    by (simp add: cleanup_def sweep_self [OF d(2)])
  have tk: "tokenStore (cleanup t s) =
           filter (\<lambda>kv. \<not> t - tok_createdAt (snd kv) > 3600000) (tokenStore s)"
    by (simp add: cleanup_def sweep_self [OF d(3)])
  have rc: "registeredClients (cleanup t s) = registeredClients s"
    by (simp add: cleanup_def)
  have gone: "map_of (transactions (cleanup t s)) tid = None"
    if "map_of (transactions s) tid = Some txn" "t - txn_createdAt txn > 600000"
    using that
    by (simp add: tx map_of_filter_snd [OF d(1), of "\<lambda>v. \<not> t - txn_createdAt v > 600000"])
  have cb: "createOAuthServer P cfg e (cleanup t s) req =
               (Json 400 (oauth_error ''invalid_request'' ''Invalid or expired state''),
                cleanup t s)"
    if "map_of (transactions (cleanup t s)) tid = None"
       "req_method req = ''GET''" "pathname req = ''/oauth/callback''"
       "map_of (searchParams req) ''state'' = Some tid" "tid \<noteq> []"
       "map_of (searchParams req) ''code'' = Some c" "c \<noteq> []"
       "\<not> present (map_of (searchParams req) ''error'')"
    using that by (simp add: createOAuthServer_def callback_endpoint_def)
  show ?thesis
    using tx ac tk rc gone cb by blast
qed

theorem cleanup_exact_witness:
  "keys_distinct tv_store1 \<and>
   map_of (transactions tv_store1) tv_txn \<noteq> None \<and>
   transactions (cleanup 1700000600001 tv_store1) = [] \<and>
   transactions (cleanup 1700000600000 tv_store1) = transactions tv_store1 \<and>
   createOAuthServer tv_platform tv_config (tv_env 1700000600002 tv_code (Ok tv_long))
       (cleanup 1700000600001 tv_store1) tv_callback =
     (Json 400 (oauth_error ''invalid_request'' ''Invalid or expired state''),
      cleanup 1700000600001 tv_store1)"
proof -
  have h: "keys_distinct tv_store1"
    by (simp add: tv_store1_eq keys_distinct_def)
  have found: "map_of (transactions tv_store1) tv_txn =
     Some (\<lparr>txn_clientId = ''c1'', txn_redirectUri = ''https://client/cb'', txn_state = ''s1'',
           txn_codeChallenge = Some ''challenge'', txn_codeChallengeMethod = Some ''S256'',
           txn_scope = FACEBOOK_SCOPES, txn_createdAt = 1700000000000\<rparr>)"
    by (simp add: tv_store1_eq)
  have rq: "req_method tv_callback = ''GET''" "pathname tv_callback = ''/oauth/callback''"
    "map_of (searchParams tv_callback) ''state'' = Some tv_txn" "tv_txn \<noteq> []"
    "map_of (searchParams tv_callback) ''code'' = Some ''upstream_code_1''"
    "\<not> present (map_of (searchParams tv_callback) ''error'')"
    by (simp_all add: tv_callback_def tv_txn_def present_def)
  from cleanup_exact [OF h, of 1700000600001 tv_txn _ tv_callback "''upstream_code_1''"]
    cleanup_exact [OF h, of 1700000600000] found rq
  show ?thesis
    using h by (simp add: tv_store1_eq)
qed

section \<open>Issuing and verifying tokens\<close>

lemma split_nosep: "c \<notin> set xs \<Longrightarrow> split c xs = [xs]"
  by (induction xs) auto

lemma split_append: "c \<notin> set xs \<Longrightarrow> split c (xs @ c # ys) = xs # split c ys"
  by (induction xs) auto

lemma split_three:
  assumes "c \<notin> set h" "c \<notin> set p" "c \<notin> set g"
  shows "split c (h @ [c] @ p @ [c] @ g) = [h, p, g]"
  using assms by (simp add: split_append split_nosep)

lemma js_plus_int: "js_plus P (of_int a) (of_int b) = of_int (a + b)"
proof -
  have "of_int \<lfloor>(of_int a :: rat) + of_int b\<rfloor> = (of_int a :: rat) + of_int b"
    by (simp flip: of_int_add)
  then show ?thesis by (simp add: js_plus_def)
qed


lemma fullPayload_exp:
  "map_of (fullPayload P t rnd claims ttl) ''exp'' = Some (JNum (js_plus P (of_int t) ttl))"
  by (simp add: fullPayload_def update_conv')


lemma exp_passed_fullPayload:
  "exp_passed P (JObj (fullPayload P t rnd claims ttl)) n \<longleftrightarrow>
     js_plus P (of_int t) ttl \<noteq> 0 \<and> js_plus P (of_int t) ttl < of_int n"
  by (simp add: exp_passed_def fullPayload_exp js_lt_def)

lemma verifyJWT_createJWT:
  assumes "codec_ok P secret (JObj (fullPayload P (t0 div 1000) rnd claims ttl))"
  shows "verifyJWT P secret t1 (createJWT P secret t0 rnd claims ttl) =
           (if js_plus P (of_int (t0 div 1000)) ttl \<noteq> 0 \<and>
               js_plus P (of_int (t0 div 1000)) ttl < of_int (t1 div 1000)
            then Invalid
            else Valid (JObj (fullPayload P (t0 div 1000) rnd claims ttl)))"
proof -
  let ?h = "encode P (JObj [(''alg'', JStr ''HS256''), (''typ'', JStr ''JWT'')])"
  let ?pl = "JObj (fullPayload P (t0 div 1000) rnd claims ttl)"
  let ?p = "encode P ?pl"
  let ?g = "hmac P secret (?h @ ''.'' @ ?p)"
  from assms have nd: "CHR ''.'' \<notin> set ?h" "CHR ''.'' \<notin> set ?p" "CHR ''.'' \<notin> set ?g"
    and rt: "decode P ?p = Some ?pl"
    by (simp_all add: codec_ok_def Let_def)
  have tok: "createJWT P secret t0 rnd claims ttl = ?h @ [CHR ''.''] @ ?p @ [CHR ''.''] @ ?g"
    by (simp add: createJWT_def Let_def)
  have sp: "split CHR ''.'' (createJWT P secret t0 rnd claims ttl) = [?h, ?p, ?g]"
    unfolding tok by (rule split_three [OF nd])
  show ?thesis
    unfolding verifyJWT_def sp
    by (simp add: rt exp_passed_fullPayload)
qed

lemma verifyJWT_createJWT_whole:
  assumes "codec_ok P secret (JObj (fullPayload P (t0 div 1000) rnd claims (of_int n)))"
    and "0 \<le> t0" and "0 < n"
  shows "verifyJWT P secret t1 (createJWT P secret t0 rnd claims (of_int n)) =
           (if t0 div 1000 + n < t1 div 1000 then Invalid
            else Valid (JObj (fullPayload P (t0 div 1000) rnd claims (of_int n))))"
proof -
  from assms(2) have "0 \<le> t0 div 1000" by simp
  with assms(3) have "t0 div 1000 + n \<noteq> 0" by simp
  then have "(of_int (t0 div 1000 + n) :: rat) \<noteq> 0"
    by (simp only: of_int_eq_0_iff not_False_eq_True)
  then show ?thesis
    by (simp add: verifyJWT_createJWT [OF assms(1)] js_plus_int del: of_int_add)
qed


lemma tv_codec_ok3: "codec_ok tv_platform tv_secret tv_payload3"
  by code_simp



lemma tv_full3:
  "JObj (fullPayload tv_platform 1700000000 tv_rnd
           [(''sub'', JStr tv_sub), (''scope'', JStr (join '' '' FACEBOOK_SCOPES))] 3600) =
   tv_payload3"
  by code_simp








text \<open>
  Claim C4 as stated fails at the boundary: a well-signed token whose \<^verbatim>\<open>exp\<close> equals
  the current second is valid, although its expiry is at (not after) the current time.
\<close>

theorem verifyJWT_at_expiry_counterexample:
  "verifyJWT tv_platform tv_secret 1700000001000
     (tv_header_b64 @ ''.'' @ tv_payload1_b64 @ ''.'' @ tv_sig1) = Valid tv_payload1 \<and>
   js_prop tv_payload1 ''exp'' = Some (JNum (of_int (1700000001000 div 1000)))"
  by code_simp

lemma exp_passed_num:
  "js_prop pl ''exp'' = Some (JNum n) \<Longrightarrow>
   exp_passed P pl now_s \<longleftrightarrow> n \<noteq> 0 \<and> n < of_int now_s"
  by (simp add: exp_passed_def js_lt_def)

lemma exp_passed_absent: "js_prop pl ''exp'' = None \<Longrightarrow> \<not> exp_passed P pl now_s"
  by (simp add: exp_passed_def)

lemma verifyJWT_parts:
  assumes "split CHR ''.'' token = h # p # g # rest"
  shows "verifyJWT P secret t token =
           (if g \<noteq> hmac P secret (h @ ''.'' @ p) then Invalid
            else case decode P p of
                   None \<Rightarrow> Invalid
                 | Some pl \<Rightarrow> if pl = JNull \<or> exp_passed P pl (t div 1000) then Invalid
                              else Valid pl)"
  by (simp add: verifyJWT_def assms split: option.splits json.splits)

lemma verifyJWT_short:
  assumes "length (split CHR ''.'' token) < 3"
  shows "verifyJWT P secret t token = Invalid"
proof -
  from assms have "\<not> (\<exists>h p g rest. split CHR ''.'' token = h # p # g # rest)"
    by auto
  then show ?thesis
    by (auto simp: verifyJWT_def split: list.splits)
qed

lemma three_parts:
  assumes "\<not> length xs < 3"
  shows "\<exists>rest. xs = xs ! 0 # xs ! 1 # xs ! 2 # rest"
proof -
  from assms obtain a b c rest where "xs = a # b # c # rest"
    by (cases xs; cases "tl xs"; cases "tl (tl xs)") auto
  then show ?thesis by simp
qed

text \<open>
  Claim C4, amended. The verifier is a total function with the two verdicts, and it
  returns invalid exactly when the token splits into fewer than three parts at the
  dots, or the third part differs from the HMAC of the first two, or the second part
  does not decode to JSON or decodes to \<^verbatim>\<open>null\<close>, or the decoded payload has a truthy
  \<^verbatim>\<open>exp\<close> that is less than the current second; otherwise it returns valid with the
  decoded payload. For a numeric \<^verbatim>\<open>exp\<close> the last condition is \<open>exp \<noteq> 0 \<and> exp < now\<close>:
  a token is still valid in the second of its expiry, and a payload without \<^verbatim>\<open>exp\<close>
  never expires.
\<close>

theorem verifyJWT_verdict:
  "(verifyJWT P secret t token = Invalid \<longleftrightarrow>
      length (split CHR ''.'' token) < 3 \<or>
      split CHR ''.'' token ! 2 \<noteq>
        hmac P secret (split CHR ''.'' token ! 0 @ ''.'' @ split CHR ''.'' token ! 1) \<or>
      decode P (split CHR ''.'' token ! 1) = None \<or>
      decode P (split CHR ''.'' token ! 1) = Some JNull \<or>
      (\<exists>pl. decode P (split CHR ''.'' token ! 1) = Some pl \<and> exp_passed P pl (t div 1000))) \<and>
   (verifyJWT P secret t token \<noteq> Invalid \<longrightarrow>
      (\<exists>pl. decode P (split CHR ''.'' token ! 1) = Some pl \<and>
            verifyJWT P secret t token = Valid pl)) \<and>
   (js_prop pl' ''exp'' = Some (JNum n) \<longrightarrow>
      (exp_passed P pl' (t div 1000) \<longleftrightarrow> n \<noteq> 0 \<and> n < of_int (t div 1000))) \<and>
   (js_prop pl' ''exp'' = None \<longrightarrow> \<not> exp_passed P pl' (t div 1000))"
proof (cases "length (split CHR ''.'' token) < 3")
  case True
  then show ?thesis
    by (simp add: verifyJWT_short exp_passed_num exp_passed_absent)
next
  case False
  from three_parts [OF False] obtain rest where
    sp: "split CHR ''.'' token =
           split CHR ''.'' token ! 0 # split CHR ''.'' token ! 1 # split CHR ''.'' token ! 2 # rest"
    by blast
  show ?thesis
    unfolding verifyJWT_parts [OF sp]
    using False
    by (auto simp: exp_passed_num exp_passed_absent split: option.splits)
qed

theorem verifyJWT_verdict_witness:
  "js_prop tv_payload1 ''exp'' = Some (JNum 1700000001) \<and>
   verifyJWT tv_platform tv_secret 1700000001999
     (tv_header_b64 @ ''.'' @ tv_payload1_b64 @ ''.'' @ tv_sig1) = Valid tv_payload1 \<and>
   verifyJWT tv_platform tv_secret 1700000002000
     (tv_header_b64 @ ''.'' @ tv_payload1_b64 @ ''.'' @ tv_sig1) = Invalid \<and>
   verifyJWT tv_platform tv_secret 1700000002000 ''not a token'' = Invalid"
proof -
  let ?tok = "tv_header_b64 @ ''.'' @ tv_payload1_b64 @ ''.'' @ tv_sig1"
  have sp: "split CHR ''.'' ?tok = [tv_header_b64, tv_payload1_b64, tv_sig1]"
    by code_simp
  have sig: "hmac tv_platform tv_secret (tv_header_b64 @ ''.'' @ tv_payload1_b64) = tv_sig1"
    by code_simp
  have dec: "decode tv_platform tv_payload1_b64 = Some tv_payload1"
    by code_simp
  have ex: "js_prop tv_payload1 ''exp'' = Some (JNum 1700000001)"
    by (simp add: tv_payload1_def)
  have short: "length (split CHR ''.'' ''not a token'') < 3"
    by code_simp
  from verifyJWT_verdict [of tv_platform tv_secret 1700000001999 ?tok tv_payload1 1700000001]
       verifyJWT_verdict [of tv_platform tv_secret 1700000002000 ?tok tv_payload1 1700000001]
       verifyJWT_verdict [of tv_platform tv_secret 1700000002000 "''not a token''"]
  show ?thesis
    unfolding sp using sig dec ex short by (simp add: tv_payload1_def)
qed

section \<open>The endpoints\<close>

lemma route_token:
  assumes "req_method req = ''POST''" "pathname req = ''/oauth/token''"
  shows "createOAuthServer P cfg e s req = token_endpoint P cfg e s req"
  by (simp add: createOAuthServer_def assms)

lemma route_callback:
  assumes "req_method req \<noteq> ''OPTIONS''" "pathname req = ''/oauth/callback''"
  shows "createOAuthServer P cfg e s req = callback_endpoint P cfg e s req"
  by (simp add: createOAuthServer_def assms)

lemma route_authorize:
  assumes "req_method req \<noteq> ''OPTIONS''" "pathname req = ''/oauth/authorize''"
  shows "createOAuthServer P cfg e s req = authorize_endpoint cfg e s req"
  by (simp add: createOAuthServer_def assms)

lemma token_unsupported:
  assumes "map_of (form_parse P (body req)) ''grant_type'' \<noteq> Some ''authorization_code''"
  shows "token_endpoint P cfg e s req =
           (Json 400 (JObj [(''error'', JStr ''unsupported_grant_type'')]), s)"
  using assms by (simp add: token_endpoint_def Let_def)

lemma token_redeem:
  assumes "map_of (form_parse P (body req)) ''grant_type'' = Some ''authorization_code''"
    and "map_of (form_parse P (body req)) ''code'' = Some c" and "c \<noteq> []"
    and "map_of (authCodes s) c = Some authCode" and "\<not> ac_used authCode"
  shows "token_endpoint P cfg e s req =
           (Json 200
              (JObj [(''access_token'',
                        JStr (createJWT P (JWT_SECRET cfg) (now e) (rand16_jwt e)
                                [(''sub'', JStr (rand16 e)),
                                 (''scope'', JStr (join '' '' FACEBOOK_SCOPES))] 3600)),
                     (''token_type'', JStr ''Bearer''),
                     (''expires_in'', JNum 3600),
                     (''scope'', JStr (join '' '' FACEBOOK_SCOPES))]),
            s\<lparr>authCodes := AList.update c (authCode\<lparr>ac_used := True\<rparr>) (authCodes s),
              tokenStore :=
                AList.update (rand16 e)
                  \<lparr>tok_metaTokens = ac_metaTokens authCode, tok_createdAt = now e\<rparr>
                  (tokenStore s)\<rparr>)"
  using assms by (simp add: token_endpoint_def Let_def)

text \<open>
  Claim C6. A \<^verbatim>\<open>POST\<close> to \<^verbatim>\<open>/oauth/token\<close> whose \<^verbatim>\<open>grant_type\<close> is not
  \<^verbatim>\<open>authorization_code\<close> (or is missing) is answered with 400
  \<^verbatim>\<open>unsupported_grant_type\<close> and changes nothing. With \<^verbatim>\<open>authorization_code\<close> and a
  stored code that is not used yet (expired or not: only the cleanup looks at the age),
  the response is 200 with the token \<^verbatim>\<open>createJWT({sub, scope}, 3600)\<close>, the type
  \<^verbatim>\<open>Bearer\<close>, \<^verbatim>\<open>expires_in\<close> 3600 and the full scope string; the code is stored again with
  \<open>ac_used\<close> set, a token record with the code's credential set is stored under the
  subject identifier (the 16 fresh random bytes of the request), and the other tables are
  as before. The token is signed: on a platform whose codec behaves on it, the verifier
  accepts it until the second of issue plus 3600, with \<^verbatim>\<open>sub\<close> and \<^verbatim>\<open>scope\<close> in its payload.
\<close>

theorem token_endpoint_grant:
  assumes "req_method req = ''POST''" and "pathname req = ''/oauth/token''"
  shows "(map_of (form_parse P (body req)) ''grant_type'' \<noteq> Some ''authorization_code'' \<longrightarrow>
            createOAuthServer P cfg e s req =
              (Json 400 (JObj [(''error'', JStr ''unsupported_grant_type'')]), s)) \<and>
         (map_of (form_parse P (body req)) ''grant_type'' = Some ''authorization_code'' \<and>
          map_of (form_parse P (body req)) ''code'' = Some c \<and> c \<noteq> [] \<and>
          map_of (authCodes s) c = Some authCode \<and> \<not> ac_used authCode \<longrightarrow>
            fst (createOAuthServer P cfg e s req) =
              Json 200
                (JObj [(''access_token'',
                          JStr (createJWT P (JWT_SECRET cfg) (now e) (rand16_jwt e)
                                  [(''sub'', JStr (rand16 e)),
                                   (''scope'', JStr (join '' '' FACEBOOK_SCOPES))] 3600)),
                       (''token_type'', JStr ''Bearer''),
                       (''expires_in'', JNum 3600),
                       (''scope'', JStr (join '' '' FACEBOOK_SCOPES))]) \<and>
            map_of (authCodes (snd (createOAuthServer P cfg e s req))) =
              (map_of (authCodes s))(c \<mapsto> authCode\<lparr>ac_used := True\<rparr>) \<and>
            map_of (tokenStore (snd (createOAuthServer P cfg e s req))) =
              (map_of (tokenStore s))
                (rand16 e \<mapsto> \<lparr>tok_metaTokens = ac_metaTokens authCode, tok_createdAt = now e\<rparr>) \<and>
            transactions (snd (createOAuthServer P cfg e s req)) = transactions s \<and>
            registeredClients (snd (createOAuthServer P cfg e s req)) = registeredClients s \<and>
            (codec_ok P (JWT_SECRET cfg)
               (JObj (fullPayload P (now e div 1000) (rand16_jwt e)
                        [(''sub'', JStr (rand16 e)),
                         (''scope'', JStr (join '' '' FACEBOOK_SCOPES))] 3600)) \<and>
             0 \<le> now e \<longrightarrow>
               verifyJWT P (JWT_SECRET cfg) t
                 (createJWT P (JWT_SECRET cfg) (now e) (rand16_jwt e)
                    [(''sub'', JStr (rand16 e)),
                     (''scope'', JStr (join '' '' FACEBOOK_SCOPES))] 3600) =
               (if now e div 1000 + 3600 < t div 1000 then Invalid
                else Valid (JObj (fullPayload P (now e div 1000) (rand16_jwt e)
                                   [(''sub'', JStr (rand16 e)),
                                    (''scope'', JStr (join '' '' FACEBOOK_SCOPES))] 3600)))))"
proof -
  note r = route_token [OF assms]
  have a: "createOAuthServer P cfg e s req =
              (Json 400 (JObj [(''error'', JStr ''unsupported_grant_type'')]), s)"
    if "map_of (form_parse P (body req)) ''grant_type'' \<noteq> Some ''authorization_code''"
    unfolding r using that by (rule token_unsupported)
  have v: "verifyJWT P (JWT_SECRET cfg) t
                 (createJWT P (JWT_SECRET cfg) (now e) (rand16_jwt e)
                    [(''sub'', JStr (rand16 e)),
                     (''scope'', JStr (join '' '' FACEBOOK_SCOPES))] 3600) =
               (if now e div 1000 + 3600 < t div 1000 then Invalid
                else Valid (JObj (fullPayload P (now e div 1000) (rand16_jwt e)
                                   [(''sub'', JStr (rand16 e)),
                                    (''scope'', JStr (join '' '' FACEBOOK_SCOPES))] 3600)))"
    if ok: "codec_ok P (JWT_SECRET cfg)
               (JObj (fullPayload P (now e div 1000) (rand16_jwt e)
                        [(''sub'', JStr (rand16 e)),
                         (''scope'', JStr (join '' '' FACEBOOK_SCOPES))] 3600))"
      and pos: "0 \<le> now e"
  proof -
    have n: "(3600::rat) = of_int 3600" by simp
    have ok': "codec_ok P (JWT_SECRET cfg)
               (JObj (fullPayload P (now e div 1000) (rand16_jwt e)
                        [(''sub'', JStr (rand16 e)),
                         (''scope'', JStr (join '' '' FACEBOOK_SCOPES))] (of_int 3600)))"
      using ok by simp
    show ?thesis
      using verifyJWT_createJWT_whole [OF ok' pos, of t] by simp
  qed
  show ?thesis
    using a v by (auto simp: r token_redeem update_conv')
qed

lemma tv_store2_eq:
  "tv_store2 =
     \<lparr>transactions = [], authCodes = [(tv_code, tv_issued)], registeredClients = [],
      tokenStore = []\<rparr>"
  by code_simp

lemma tv_token_form:
  "map_of (form_parse tv_platform (body tv_token)) ''grant_type'' = Some ''authorization_code''"
  "map_of (form_parse tv_platform (body tv_token)) ''code'' = Some tv_code"
  "req_method tv_token = ''POST''" "pathname tv_token = ''/oauth/token''" "tv_code \<noteq> []"
  by code_simp+

theorem token_endpoint_grant_witness:
  "map_of (authCodes tv_store2) tv_code = Some tv_issued \<and> \<not> ac_used tv_issued \<and>
   fst (createOAuthServer tv_platform tv_config (tv_env 1700000000900 tv_code (Ok tv_long))
          tv_store2 tv_token) =
     Json 200
       (JObj [(''access_token'',
                 JStr (tv_header_b64 @ ''.'' @ tv_payload3_b64 @ ''.'' @ tv_sig3)),
              (''token_type'', JStr ''Bearer''), (''expires_in'', JNum 3600),
              (''scope'', JStr (join '' '' FACEBOOK_SCOPES))]) \<and>
   map_of (tokenStore (snd (createOAuthServer tv_platform tv_config
          (tv_env 1700000000900 tv_code (Ok tv_long)) tv_store2 tv_token))) tv_sub =
     Some \<lparr>tok_metaTokens = ac_metaTokens tv_issued, tok_createdAt = 1700000000900\<rparr> \<and>
   map_of (authCodes (snd (createOAuthServer tv_platform tv_config
          (tv_env 1700000000900 tv_code (Ok tv_long)) tv_store2 tv_token))) tv_code =
     Some (tv_issued\<lparr>ac_used := True\<rparr>) \<and>
   fst (createOAuthServer tv_platform tv_config (tv_env 1700000000900 tv_code (Ok tv_long))
          tv_store2 (tv_token\<lparr>body := ''grant_type=refresh_token''\<rparr>)) =
     Json 400 (JObj [(''error'', JStr ''unsupported_grant_type'')]) \<and>
   verifyJWT tv_platform tv_secret 1700003600999
     (tv_header_b64 @ ''.'' @ tv_payload3_b64 @ ''.'' @ tv_sig3) = Valid tv_payload3 \<and>
   js_prop tv_payload3 ''sub'' = Some (JStr tv_sub)"
proof -
  let ?e = "tv_env 1700000000900 tv_code (Ok tv_long)"
  have found: "map_of (authCodes tv_store2) tv_code = Some tv_issued" "\<not> ac_used tv_issued"
    by (simp_all add: tv_store2_eq tv_issued_def)
  have jwt: "createJWT tv_platform tv_secret 1700000000900 tv_rnd
               [(''sub'', JStr tv_sub), (''scope'', JStr (join '' '' FACEBOOK_SCOPES))] 3600 =
             tv_header_b64 @ ''.'' @ tv_payload3_b64 @ ''.'' @ tv_sig3"
    by code_simp
  have env: "rand16 ?e = tv_sub" "now ?e = 1700000000900" "rand16_jwt ?e = tv_rnd"
    "JWT_SECRET tv_config = tv_secret"
    by (simp_all add: tv_env_def tv_config_def)
  have sub: "js_prop tv_payload3 ''sub'' = Some (JStr tv_sub)"
    by (simp add: tv_payload3_def)
  have other: "req_method (tv_token\<lparr>body := ''grant_type=refresh_token''\<rparr>) = ''POST''"
    "pathname (tv_token\<lparr>body := ''grant_type=refresh_token''\<rparr>) = ''/oauth/token''"
    "map_of (form_parse tv_platform (body (tv_token\<lparr>body := ''grant_type=refresh_token''\<rparr>)))
       ''grant_type'' \<noteq> Some ''authorization_code''"
    by code_simp+
  from token_endpoint_grant [OF tv_token_form(3,4), where P = tv_platform and c = tv_code
         and s = tv_store2 and authCode = tv_issued and cfg = tv_config and e = ?e
         and t = 1700003600999]
       token_endpoint_grant [OF other(1,2), where P = tv_platform and s = tv_store2
         and cfg = tv_config and e = ?e and t = 0]
       found tv_token_form other(3) tv_codec_ok3 sub
  show ?thesis
    by (simp add: jwt env tv_full3)
qed

text \<open>
  Claim C7 as stated fails on a callback that carries an \<^verbatim>\<open>error\<close> parameter next to
  the code and the unknown state: the \<^verbatim>\<open>error\<close> branch comes first, and the error code
  of the response is the one in the request, here \<^verbatim>\<open>access_denied\<close>.
\<close>

theorem callback_unknown_state_counterexample:
  "map_of (searchParams tv_denied) ''code'' = Some ''upstream_code_1'' \<and>
   map_of (searchParams tv_denied) ''state'' = Some tv_txn \<and>
   map_of (transactions empty_store) tv_txn = None \<and>
   createOAuthServer tv_platform tv_config (tv_env 1700000000000 tv_code (Ok tv_long))
       empty_store tv_denied =
     (Json 400 (JObj [(''error'', JStr ''access_denied''), (''error_description'', JNull)]),
      empty_store)"
  by code_simp

text \<open>
  Claim C7, amended. A \<^verbatim>\<open>GET\<close> to \<^verbatim>\<open>/oauth/callback\<close> with a code and a state that
  names no stored transaction is always answered with a 400 JSON body and never with a
  redirect, and the store is unchanged. Without a non-empty \<^verbatim>\<open>error\<close> parameter the
  error code is \<^verbatim>\<open>invalid_request\<close> (with the description ``Invalid or expired state''
  when code and state are non-empty); with one, the error code is that parameter.
\<close>

theorem callback_unknown_state:
  assumes "req_method req = ''GET''" and "pathname req = ''/oauth/callback''"
    and "map_of (searchParams req) ''code'' = Some c"
    and "map_of (searchParams req) ''state'' = Some tid"
    and "map_of (transactions s) tid = None"
  shows "snd (createOAuthServer P cfg e s req) = s \<and>
         (\<exists>j. fst (createOAuthServer P cfg e s req) = Json 400 j) \<and>
         (\<not> present (map_of (searchParams req) ''error'') \<longrightarrow>
            (\<exists>d. fst (createOAuthServer P cfg e s req) =
                   Json 400 (oauth_error ''invalid_request'' d))) \<and>
         (\<not> present (map_of (searchParams req) ''error'') \<and> c \<noteq> [] \<and> tid \<noteq> [] \<longrightarrow>
            fst (createOAuthServer P cfg e s req) =
              Json 400 (oauth_error ''invalid_request'' ''Invalid or expired state'')) \<and>
         (map_of (searchParams req) ''error'' = Some er \<and> er \<noteq> [] \<longrightarrow>
            (\<exists>d. fst (createOAuthServer P cfg e s req) =
                   Json 400 (JObj [(''error'', JStr er), (''error_description'', d)])))"
proof -
  have m: "req_method req \<noteq> ''OPTIONS''" using assms(1) by simp
  show ?thesis
    unfolding route_callback [OF m assms(2)]
    using assms(3-5) by (auto simp: callback_endpoint_def Let_def present_def)
qed

theorem callback_unknown_state_witness:
  "createOAuthServer tv_platform tv_config (tv_env 1700000000000 tv_code (Ok tv_long))
       empty_store tv_callback =
     (Json 400 (oauth_error ''invalid_request'' ''Invalid or expired state''), empty_store)"
proof -
  have h: "req_method tv_callback = ''GET''" "pathname tv_callback = ''/oauth/callback''"
    "map_of (searchParams tv_callback) ''code'' = Some ''upstream_code_1''"
    "map_of (searchParams tv_callback) ''state'' = Some tv_txn"
    "map_of (transactions empty_store) tv_txn = None"
    by code_simp+
  have n: "\<not> present (map_of (searchParams tv_callback) ''error'')" "tv_txn \<noteq> []"
    by code_simp+
  from callback_unknown_state [OF h, where P = tv_platform and cfg = tv_config
         and e = "tv_env 1700000000000 tv_code (Ok tv_long)"] n
  show ?thesis
    by (simp add: prod_eq_iff)
qed

lemma authorize_shape:
  "authorize_endpoint cfg e s req =
     (case (map_of (searchParams req) ''client_id'', map_of (searchParams req) ''redirect_uri'') of
        (Some cid, Some ruri) \<Rightarrow>
          if cid = [] \<or> ruri = [] \<or> map_of (searchParams req) ''response_type'' \<noteq> Some ''code''
          then (Json 400 (oauth_error ''invalid_request'' ''Missing required parameters''), s)
          else (Redirect FACEBOOK_AUTH_ENDPOINT
                  [(''client_id'', appId cfg),
                   (''redirect_uri'', baseUrl cfg @ ''/oauth/callback''),
                   (''state'', rand32 e),
                   (''scope'', join '','' FACEBOOK_SCOPES),
                   (''response_type'', ''code'')],
                s\<lparr>transactions :=
                    AList.update (rand32 e) (new_transaction e req cid ruri) (transactions s)\<rparr>)
      | _ \<Rightarrow> (Json 400 (oauth_error ''invalid_request'' ''Missing required parameters''), s))"
  unfolding authorize_endpoint_def new_transaction_def Let_def by (rule refl)

lemma register_shape:
  "register_endpoint P e s req =
     (case json_parse P (body req) of
        None \<Rightarrow> (Unhandled, s)
      | Some JNull \<Rightarrow> (Unhandled, s)
      | Some b \<Rightarrow>
          (Json 200 (registration_reply e b),
           s\<lparr>registeredClients :=
               AList.update (rand16 e) (new_client e b) (registeredClients s)\<rparr>))"
  unfolding register_endpoint_def registration_reply_def new_client_def Let_def by (rule refl)

lemma authorize_redirect:
  assumes "map_of (searchParams req) ''client_id'' = Some cid" and "cid \<noteq> []"
    and "map_of (searchParams req) ''redirect_uri'' = Some ruri" and "ruri \<noteq> []"
    and "map_of (searchParams req) ''response_type'' = Some ''code''"
  shows "authorize_endpoint cfg e s req =
           (Redirect FACEBOOK_AUTH_ENDPOINT
              [(''client_id'', appId cfg),
               (''redirect_uri'', baseUrl cfg @ ''/oauth/callback''),
               (''state'', rand32 e),
               (''scope'', join '','' FACEBOOK_SCOPES),
               (''response_type'', ''code'')],
            s\<lparr>transactions :=
                AList.update (rand32 e) (new_transaction e req cid ruri) (transactions s)\<rparr>)"
  using assms by (simp add: authorize_shape)

lemma register_ignored_token:
  "token_endpoint P cfg e (s\<lparr>registeredClients := r\<rparr>) req =
     (fst (token_endpoint P cfg e s req),
      (snd (token_endpoint P cfg e s req))\<lparr>registeredClients := r\<rparr>)"
  by (simp add: token_endpoint_def Let_def split: option.splits)

lemma register_ignored_callback:
  "callback_endpoint P cfg e (s\<lparr>registeredClients := r\<rparr>) req =
     (fst (callback_endpoint P cfg e s req),
      (snd (callback_endpoint P cfg e s req))\<lparr>registeredClients := r\<rparr>)"
  by (simp add: callback_endpoint_def Let_def split: option.splits sum.splits)

lemma register_ignored_authorize:
  "authorize_endpoint cfg e (s\<lparr>registeredClients := r\<rparr>) req =
     (fst (authorize_endpoint cfg e s req),
      (snd (authorize_endpoint cfg e s req))\<lparr>registeredClients := r\<rparr>)"
  by (simp add: authorize_shape split: option.splits)

lemma register_ignored_register:
  "fst (register_endpoint P e (s\<lparr>registeredClients := r\<rparr>) req) =
     fst (register_endpoint P e s req) \<and>
   transactions (snd (register_endpoint P e (s\<lparr>registeredClients := r\<rparr>) req)) =
     transactions (snd (register_endpoint P e s req)) \<and>
   authCodes (snd (register_endpoint P e (s\<lparr>registeredClients := r\<rparr>) req)) =
     authCodes (snd (register_endpoint P e s req)) \<and>
   tokenStore (snd (register_endpoint P e (s\<lparr>registeredClients := r\<rparr>) req)) =
     tokenStore (snd (register_endpoint P e s req))"
  by (simp add: register_shape split: option.splits json.splits)

lemma register_ignored:
  "fst (createOAuthServer P cfg e (s\<lparr>registeredClients := r\<rparr>) req) =
     fst (createOAuthServer P cfg e s req) \<and>
   transactions (snd (createOAuthServer P cfg e (s\<lparr>registeredClients := r\<rparr>) req)) =
     transactions (snd (createOAuthServer P cfg e s req)) \<and>
   authCodes (snd (createOAuthServer P cfg e (s\<lparr>registeredClients := r\<rparr>) req)) =
     authCodes (snd (createOAuthServer P cfg e s req)) \<and>
   tokenStore (snd (createOAuthServer P cfg e (s\<lparr>registeredClients := r\<rparr>) req)) =
     tokenStore (snd (createOAuthServer P cfg e s req))"
  unfolding createOAuthServer_def
  by (simp add: register_ignored_token register_ignored_callback register_ignored_authorize
        register_ignored_register)

text \<open>
  Claim C10. A \<^verbatim>\<open>GET\<close> to \<^verbatim>\<open>/oauth/authorize\<close> with non-empty \<^verbatim>\<open>client_id\<close> and
  \<^verbatim>\<open>redirect_uri\<close> and \<^verbatim>\<open>response_type=code\<close> stores a transaction for them under the
  fresh transaction identifier and redirects to the upstream authorization endpoint with
  that identifier as \<^verbatim>\<open>state\<close>, whatever the table of registered clients holds. No
  endpoint reads that table: for every request, replacing the table by any other gives
  the same response and the same three other tables.
\<close>

theorem authorize_without_registration:
  assumes "req_method req = ''GET''" and "pathname req = ''/oauth/authorize''"
    and "map_of (searchParams req) ''client_id'' = Some cid" and "cid \<noteq> []"
    and "map_of (searchParams req) ''redirect_uri'' = Some ruri" and "ruri \<noteq> []"
    and "map_of (searchParams req) ''response_type'' = Some ''code''"
  shows "fst (createOAuthServer P cfg e s req) =
           Redirect FACEBOOK_AUTH_ENDPOINT
              [(''client_id'', appId cfg),
               (''redirect_uri'', baseUrl cfg @ ''/oauth/callback''),
               (''state'', rand32 e),
               (''scope'', join '','' FACEBOOK_SCOPES),
               (''response_type'', ''code'')] \<and>
         (\<exists>txn. map_of (transactions (snd (createOAuthServer P cfg e s req))) (rand32 e) =
                  Some txn \<and>
                txn_clientId txn = cid \<and> txn_redirectUri txn = ruri \<and>
                txn_createdAt txn = now e) \<and>
         registeredClients (snd (createOAuthServer P cfg e s req)) = registeredClients s \<and>
         fst (createOAuthServer P cfg e' (s'\<lparr>registeredClients := r\<rparr>) req') =
           fst (createOAuthServer P cfg e' s' req') \<and>
         transactions (snd (createOAuthServer P cfg e' (s'\<lparr>registeredClients := r\<rparr>) req')) =
           transactions (snd (createOAuthServer P cfg e' s' req')) \<and>
         authCodes (snd (createOAuthServer P cfg e' (s'\<lparr>registeredClients := r\<rparr>) req')) =
           authCodes (snd (createOAuthServer P cfg e' s' req')) \<and>
         tokenStore (snd (createOAuthServer P cfg e' (s'\<lparr>registeredClients := r\<rparr>) req')) =
           tokenStore (snd (createOAuthServer P cfg e' s' req'))"
proof -
  have m: "req_method req \<noteq> ''OPTIONS''" using assms(1) by simp
  define txn where "txn = new_transaction e req cid ruri"
  have a: "authorize_endpoint cfg e s req =
           (Redirect FACEBOOK_AUTH_ENDPOINT
              [(''client_id'', appId cfg),
               (''redirect_uri'', baseUrl cfg @ ''/oauth/callback''),
               (''state'', rand32 e),
               (''scope'', join '','' FACEBOOK_SCOPES),
               (''response_type'', ''code'')],
            s\<lparr>transactions := AList.update (rand32 e) txn (transactions s)\<rparr>)"
    unfolding txn_def by (rule authorize_redirect [OF assms(3-7)])
  have t: "txn_clientId txn = cid" "txn_redirectUri txn = ruri" "txn_createdAt txn = now e"
    by (simp_all add: txn_def new_transaction_def)
  have stored: "map_of (transactions (snd (createOAuthServer P cfg e s req))) (rand32 e) = Some txn"
    by (simp add: route_authorize [OF m assms(2)] a update_conv')
  show ?thesis
    using stored t register_ignored [where P = P and cfg = cfg and e = e' and s = s' and r = r and req = req']
    by (simp add: route_authorize [OF m assms(2)] a)
qed

theorem authorize_without_registration_witness:
  "registeredClients empty_store = [] \<and>
   fst (createOAuthServer tv_platform tv_config (tv_env 1700000000000 tv_txn (Ok tv_long))
          empty_store tv_authorize) =
     Redirect FACEBOOK_AUTH_ENDPOINT
       [(''client_id'', ''1234567890''),
        (''redirect_uri'', ''http://localhost:3000/oauth/callback''),
        (''state'', tv_txn),
        (''scope'', join '','' FACEBOOK_SCOPES),
        (''response_type'', ''code'')] \<and>
   map_of (transactions (snd (createOAuthServer tv_platform tv_config
          (tv_env 1700000000000 tv_txn (Ok tv_long)) empty_store tv_authorize))) tv_txn \<noteq> None"
proof -
  have h: "req_method tv_authorize = ''GET''" "pathname tv_authorize = ''/oauth/authorize''"
    "map_of (searchParams tv_authorize) ''client_id'' = Some ''c1''" "''c1'' \<noteq> []"
    "map_of (searchParams tv_authorize) ''redirect_uri'' = Some ''https://client/cb''"
    "''https://client/cb'' \<noteq> []"
    "map_of (searchParams tv_authorize) ''response_type'' = Some ''code''"
    by code_simp+
  have c: "appId tv_config = ''1234567890''" "baseUrl tv_config = ''http://localhost:3000''"
    "rand32 (tv_env 1700000000000 tv_txn (Ok tv_long)) = tv_txn"
    "registeredClients empty_store = []"
    by (simp_all add: tv_config_def tv_env_def empty_store_def)
  from authorize_without_registration [OF h, where P = tv_platform and cfg = tv_config
         and e = "tv_env 1700000000000 tv_txn (Ok tv_long)" and s = empty_store
         and e' = "tv_env 1700000000000 tv_txn (Ok tv_long)" and s' = empty_store
         and r = "[]" and req' = tv_authorize]
  show ?thesis
    by (auto simp: c)
qed

section \<open>The upstream exchange and the callback\<close>

lemma exchange_step2_throws:
  assumes "fetch_tokens e (code_request cfg code redirectUri) = Ok tokens"
    and "fetch_tokens e (upgrade_request cfg (access_token tokens)) = Failed r \<or>
         fetch_tokens e (upgrade_request cfg (access_token tokens)) = NotJson ok r"
  shows "exchangeFacebookCode cfg e code redirectUri = Inl (Rejection r)"
  using assms
  by (auto simp: exchangeFacebookCode_def code_request_def upgrade_request_def)

lemma exchange_step2_fallback:
  assumes "fetch_tokens e (code_request cfg code redirectUri) = Ok tokens"
    and "fetch_tokens e (upgrade_request cfg (access_token tokens)) = HttpError m"
    and "answered (fetch_user e (user_request (access_token tokens)))"
    and "answered (fetch_pages e (pages_request (access_token tokens)))"
  shows "\<exists>session. exchangeFacebookCode cfg e code redirectUri = Inr session \<and>
           userAccessToken session = access_token tokens \<and>
           expiresAt session = expiry (now e) (expires_in tokens)"
  using assms
  by (auto simp: exchangeFacebookCode_def code_request_def upgrade_request_def user_request_def
        pages_request_def answered_def expiry_def Let_def split: fetched.splits)

lemma callback_success:
  assumes "map_of (searchParams req) ''code'' = Some c" and "c \<noteq> []"
    and "map_of (searchParams req) ''state'' = Some tid" and "tid \<noteq> []"
    and "\<not> present (map_of (searchParams req) ''error'')"
    and "map_of (transactions s) tid = Some txn"
    and "exchangeFacebookCode cfg e c (baseUrl cfg @ ''/oauth/callback'') = Inr session"
  shows "callback_endpoint P cfg e s req =
           (if url_ok P (txn_redirectUri txn)
            then Redirect (txn_redirectUri txn) [(''code'', rand32 e), (''state'', txn_state txn)]
            else Unhandled,
            s\<lparr>authCodes :=
                AList.update (rand32 e)
                  \<lparr>ac_clientId = txn_clientId txn, ac_redirectUri = txn_redirectUri txn,
                   ac_metaTokens = session, ac_createdAt = now e, ac_used = False\<rparr>
                  (authCodes s),
              transactions := AList.delete tid (transactions s)\<rparr>)"
  using assms by (simp add: callback_endpoint_def Let_def)

lemma callback_failure:
  assumes "map_of (searchParams req) ''code'' = Some c" and "c \<noteq> []"
    and "map_of (searchParams req) ''state'' = Some tid" and "tid \<noteq> []"
    and "\<not> present (map_of (searchParams req) ''error'')"
    and "map_of (transactions s) tid = Some txn"
    and "exchangeFacebookCode cfg e c (baseUrl cfg @ ''/oauth/callback'') = Inl err"
  shows "callback_endpoint P cfg e s req =
           (if url_ok P (txn_redirectUri txn)
            then Redirect (txn_redirectUri txn)
                   [(''error'', ''server_error''), (''error_description'', fault_string err),
                    (''state'', txn_state txn)]
            else Unhandled, s)"
  using assms by (simp add: callback_endpoint_def Let_def)

text \<open>
  The fallback of step 2 where it works, and the failures of step 2 that bypass it.
  When step 1 succeeded and upstream answers the upgrade with a response that is not ok
  and whose body is JSON, then, provided the two requests of step 3 are answered, the
  exchange returns a credential set whose access token is the short-lived token of step
  1 and whose expiry is computed from that token's \<^verbatim>\<open>expires_in\<close>, and the callback
  completes with the success redirect and stores the code. When the \<^verbatim>\<open>fetch\<close> of the
  upgrade rejects, or the body of its answer is not JSON, the exchange throws that
  rejection.
\<close>

lemma upgrade_failure_fallback:
  assumes "fetch_tokens e (code_request cfg code redirectUri) = Ok tokens"
  shows "(fetch_tokens e (upgrade_request cfg (access_token tokens)) = HttpError m \<and>
          answered (fetch_user e (user_request (access_token tokens))) \<and>
          answered (fetch_pages e (pages_request (access_token tokens))) \<longrightarrow>
            (\<exists>session. exchangeFacebookCode cfg e code redirectUri = Inr session \<and>
               userAccessToken session = access_token tokens \<and>
               expiresAt session = expiry (now e) (expires_in tokens) \<and>
               (redirectUri = baseUrl cfg @ ''/oauth/callback'' \<and>
                req_method req = ''GET'' \<and> pathname req = ''/oauth/callback'' \<and>
                map_of (searchParams req) ''code'' = Some code \<and> code \<noteq> [] \<and>
                map_of (searchParams req) ''state'' = Some tid \<and> tid \<noteq> [] \<and>
                \<not> present (map_of (searchParams req) ''error'') \<and>
                map_of (transactions s) tid = Some txn \<and> url_ok P (txn_redirectUri txn) \<longrightarrow>
                  fst (createOAuthServer P cfg e s req) =
                    Redirect (txn_redirectUri txn)
                      [(''code'', rand32 e), (''state'', txn_state txn)] \<and>
                  map_of (authCodes (snd (createOAuthServer P cfg e s req))) (rand32 e) =
                    Some \<lparr>ac_clientId = txn_clientId txn, ac_redirectUri = txn_redirectUri txn,
                          ac_metaTokens = session, ac_createdAt = now e, ac_used = False\<rparr>))) \<and>
         (fetch_tokens e (upgrade_request cfg (access_token tokens)) = Failed r \<or>
          fetch_tokens e (upgrade_request cfg (access_token tokens)) = NotJson ok r \<longrightarrow>
            exchangeFacebookCode cfg e code redirectUri = Inl (Rejection r))"
proof -
  have fallback: "\<exists>session. exchangeFacebookCode cfg e code redirectUri = Inr session \<and>
               userAccessToken session = access_token tokens \<and>
               expiresAt session = expiry (now e) (expires_in tokens) \<and>
               (redirectUri = baseUrl cfg @ ''/oauth/callback'' \<and>
                req_method req = ''GET'' \<and> pathname req = ''/oauth/callback'' \<and>
                map_of (searchParams req) ''code'' = Some code \<and> code \<noteq> [] \<and>
                map_of (searchParams req) ''state'' = Some tid \<and> tid \<noteq> [] \<and>
                \<not> present (map_of (searchParams req) ''error'') \<and>
                map_of (transactions s) tid = Some txn \<and> url_ok P (txn_redirectUri txn) \<longrightarrow>
                  fst (createOAuthServer P cfg e s req) =
                    Redirect (txn_redirectUri txn)
                      [(''code'', rand32 e), (''state'', txn_state txn)] \<and>
                  map_of (authCodes (snd (createOAuthServer P cfg e s req))) (rand32 e) =
                    Some \<lparr>ac_clientId = txn_clientId txn, ac_redirectUri = txn_redirectUri txn,
                          ac_metaTokens = session, ac_createdAt = now e, ac_used = False\<rparr>)"
    if up: "fetch_tokens e (upgrade_request cfg (access_token tokens)) = HttpError m"
      and u: "answered (fetch_user e (user_request (access_token tokens)))"
      and p: "answered (fetch_pages e (pages_request (access_token tokens)))"
  proof -
    from exchange_step2_fallback [OF assms up u p] obtain session where
      ex: "exchangeFacebookCode cfg e code redirectUri = Inr session"
      and tok: "userAccessToken session = access_token tokens"
        "expiresAt session = expiry (now e) (expires_in tokens)"
      by blast
    have flow: "fst (createOAuthServer P cfg e s req) =
                    Redirect (txn_redirectUri txn)
                      [(''code'', rand32 e), (''state'', txn_state txn)] \<and>
                map_of (authCodes (snd (createOAuthServer P cfg e s req))) (rand32 e) =
                    Some \<lparr>ac_clientId = txn_clientId txn, ac_redirectUri = txn_redirectUri txn,
                          ac_metaTokens = session, ac_createdAt = now e, ac_used = False\<rparr>"
      if r: "redirectUri = baseUrl cfg @ ''/oauth/callback''"
        and rq: "req_method req = ''GET''" "pathname req = ''/oauth/callback''"
        and c: "map_of (searchParams req) ''code'' = Some code" "code \<noteq> []"
        and t: "map_of (searchParams req) ''state'' = Some tid" "tid \<noteq> []"
        and ne: "\<not> present (map_of (searchParams req) ''error'')"
        and tx: "map_of (transactions s) tid = Some txn"
        and ok: "url_ok P (txn_redirectUri txn)"
    proof -
      have m: "req_method req \<noteq> ''OPTIONS''" using rq(1) by simp
      show ?thesis
        unfolding route_callback [OF m rq(2)]
          callback_success [OF c t ne tx ex [unfolded r]]
        using ok by (simp add: update_conv')
    qed
    from ex tok flow show ?thesis by blast
  qed
  have throws: "exchangeFacebookCode cfg e code redirectUri = Inl (Rejection r)"
    if "fetch_tokens e (upgrade_request cfg (access_token tokens)) = Failed r \<or>
        fetch_tokens e (upgrade_request cfg (access_token tokens)) = NotJson ok r"
    using assms that by (rule exchange_step2_throws)
  from fallback throws show ?thesis by blast
qed

lemma upgrade_failure_fallback_example:
  "fetch_tokens tv_refused
     (code_request tv_config ''upstream_code_1'' (baseUrl tv_config @ ''/oauth/callback'')) =
     Ok tv_short \<and>
   fetch_tokens tv_refused (upgrade_request tv_config (access_token tv_short)) =
     HttpError (Some ''upgrade refused'') \<and>
   (\<exists>session.
      exchangeFacebookCode tv_config tv_refused ''upstream_code_1''
        (baseUrl tv_config @ ''/oauth/callback'') = Inr session \<and>
      userAccessToken session = ''short-lived'' \<and>
      expiresAt session = Some 1700003600500) \<and>
   fst (createOAuthServer tv_platform tv_config tv_refused tv_store1 tv_callback) =
     Redirect ''https://client/cb'' [(''code'', tv_code), (''state'', ''s1'')]"
proof -
  have s1: "fetch_tokens tv_refused
     (code_request tv_config ''upstream_code_1'' (baseUrl tv_config @ ''/oauth/callback'')) =
     Ok tv_short"
    by code_simp
  have s2: "fetch_tokens tv_refused (upgrade_request tv_config (access_token tv_short)) =
     HttpError (Some ''upgrade refused'')"
    by code_simp
  have s3: "answered (fetch_user tv_refused (user_request (access_token tv_short)))"
    "answered (fetch_pages tv_refused (pages_request (access_token tv_short)))"
    by code_simp+
  have rq: "req_method tv_callback = ''GET''" "pathname tv_callback = ''/oauth/callback''"
    "map_of (searchParams tv_callback) ''code'' = Some ''upstream_code_1''"
    "map_of (searchParams tv_callback) ''state'' = Some tv_txn" "tv_txn \<noteq> []"
    "\<not> present (map_of (searchParams tv_callback) ''error'')"
    "map_of (transactions tv_store1) tv_txn = Some tv_txn_record"
    "url_ok tv_platform (txn_redirectUri tv_txn_record)"
    by code_simp+
  have v: "access_token tv_short = ''short-lived''"
    "expiry (now tv_refused) (expires_in tv_short) = Some 1700003600500"
    "txn_redirectUri tv_txn_record = ''https://client/cb''" "txn_state tv_txn_record = ''s1''"
    "rand32 tv_refused = tv_code"
    by code_simp+
  from upgrade_failure_fallback [OF s1, where m = "Some ''upgrade refused''"
         and req = tv_callback and tid = tv_txn and s = tv_store1 and txn = tv_txn_record
         and P = tv_platform] s2 s3 rq
  show ?thesis
    using s1 by (auto simp: v)
qed

text \<open>
  Claim C3, at the inputs where the code departs from it. Step 1 succeeds in each case.
  When the \<^verbatim>\<open>fetch\<close> of the upgrade rejects (a network error), the exchange throws and
  the callback redirects the client with \<^verbatim>\<open>server_error\<close>; the same happens when the
  upgrade is answered with a response that is not ok and whose body is not JSON, since
  \<^verbatim>\<open>longLivedResponse.json()\<close> is awaited before \<^verbatim>\<open>longLivedResponse.ok\<close> is looked
  at. The fallback to the short-lived token is taken only on the sibling path, a
  response that is not ok with a JSON body.
\<close>

theorem upgrade_network_error_aborts:
  "fetch_tokens (tv_env 1700000000500 tv_code (Failed ''TypeError: fetch failed''))
     (code_request tv_config ''upstream_code_1'' ''http://localhost:3000/oauth/callback'') =
     Ok tv_short \<and>
   exchangeFacebookCode tv_config (tv_env 1700000000500 tv_code (Failed ''TypeError: fetch failed''))
     ''upstream_code_1'' ''http://localhost:3000/oauth/callback'' =
     Inl (Rejection ''TypeError: fetch failed'') \<and>
   fst (createOAuthServer tv_platform tv_config
          (tv_env 1700000000500 tv_code (Failed ''TypeError: fetch failed'')) tv_store1 tv_callback) =
     Redirect ''https://client/cb''
       [(''error'', ''server_error''), (''error_description'', ''TypeError: fetch failed''),
        (''state'', ''s1'')] \<and>
   exchangeFacebookCode tv_config
     (tv_env 1700000000500 tv_code (NotJson False ''SyntaxError: Unexpected end of JSON input''))
     ''upstream_code_1'' ''http://localhost:3000/oauth/callback'' =
     Inl (Rejection ''SyntaxError: Unexpected end of JSON input'') \<and>
   fst (createOAuthServer tv_platform tv_config
          (tv_env 1700000000500 tv_code (NotJson False ''SyntaxError: Unexpected end of JSON input''))
          tv_store1 tv_callback) =
     Redirect ''https://client/cb''
       [(''error'', ''server_error''),
        (''error_description'', ''SyntaxError: Unexpected end of JSON input''),
        (''state'', ''s1'')] \<and>
   map_option userAccessToken
     (case exchangeFacebookCode tv_config tv_refused ''upstream_code_1''
             ''http://localhost:3000/oauth/callback'' of
        Inl err \<Rightarrow> None | Inr session \<Rightarrow> Some session) =
     Some ''short-lived''"
  by code_simp

text \<open>
  Claim C2, at the input where the code departs from it. The transaction of the test run
  is stored; a callback for it whose upstream code is refused in step 1 is answered with
  the \<^verbatim>\<open>server_error\<close> redirect, and the store is returned unchanged: the transaction is
  still there. (The \<^verbatim>\<open>catch\<close> block has no \<^verbatim>\<open>transactions.delete\<close>.) The callback
  whose exchange succeeds does delete it.
\<close>

theorem callback_failure_keeps_transaction:
  "map_of (transactions tv_store1) tv_txn = Some tv_txn_record \<and>
   createOAuthServer tv_platform tv_config (tv_env 1700000000500 tv_code (Ok tv_long)) tv_store1
     (tv_callback\<lparr>searchParams := [(''code'', ''expired_code''), (''state'', tv_txn)]\<rparr>) =
     (Redirect ''https://client/cb''
        [(''error'', ''server_error''),
         (''error_description'', ''Error: Invalid verification code''), (''state'', ''s1'')],
      tv_store1) \<and>
   map_of (transactions
      (snd (createOAuthServer tv_platform tv_config (tv_env 1700000000500 tv_code (Ok tv_long))
              tv_store1 tv_callback))) tv_txn = None"
  by code_simp

section \<open>What the token endpoint reads\<close>

lemma map_of_rebind:
  "map_of (rebind_codes f g m) c =
     map_option (\<lambda>ac. ac\<lparr>ac_clientId := f c, ac_redirectUri := g c\<rparr>) (map_of m c)"
  by (induction m) (auto simp: rebind_codes_def)

lemma rebind_update:
  "rebind_codes f g (AList.update c ac m) =
     AList.update c (ac\<lparr>ac_clientId := f c, ac_redirectUri := g c\<rparr>) (rebind_codes f g m)"
  by (induction m) (auto simp: rebind_codes_def)

lemma used_after_rebind:
  "ac\<lparr>ac_used := u, ac_clientId := a, ac_redirectUri := b\<rparr> =
     ac\<lparr>ac_clientId := a, ac_redirectUri := b, ac_used := u\<rparr>"
  by (cases ac) simp

lemma map_of_rechallenge:
  "map_of (rechallenge x y m) tid =
     map_option (\<lambda>t. t\<lparr>txn_codeChallenge := x tid, txn_codeChallengeMethod := y tid\<rparr>)
       (map_of m tid)"
  by (induction m) (auto simp: rechallenge_def)

lemma token_reads_grant_and_code:
  assumes "map_of (form_parse P (body req)) ''grant_type'' =
           map_of (form_parse P (body req')) ''grant_type''"
    and "map_of (form_parse P (body req)) ''code'' = map_of (form_parse P (body req')) ''code''"
  shows "token_endpoint P cfg e s req = token_endpoint P cfg e s req'"
  by (simp add: token_endpoint_def assms)

lemma token_ignores_binding:
  "fst (token_endpoint P cfg e (s\<lparr>authCodes := rebind_codes f g (authCodes s)\<rparr>) req) =
     fst (token_endpoint P cfg e s req) \<and>
   tokenStore (snd (token_endpoint P cfg e (s\<lparr>authCodes := rebind_codes f g (authCodes s)\<rparr>) req)) =
     tokenStore (snd (token_endpoint P cfg e s req)) \<and>
   authCodes (snd (token_endpoint P cfg e (s\<lparr>authCodes := rebind_codes f g (authCodes s)\<rparr>) req)) =
     rebind_codes f g (authCodes (snd (token_endpoint P cfg e s req)))"
  by (simp add: token_endpoint_def Let_def map_of_rebind rebind_update used_after_rebind
        split: option.splits)

lemma callback_ignores_challenge:
  "fst (callback_endpoint P cfg e (s\<lparr>transactions := rechallenge x y (transactions s)\<rparr>) req) =
     fst (callback_endpoint P cfg e s req) \<and>
   authCodes (snd (callback_endpoint P cfg e
                     (s\<lparr>transactions := rechallenge x y (transactions s)\<rparr>) req)) =
     authCodes (snd (callback_endpoint P cfg e s req))"
  by (simp add: callback_endpoint_def Let_def map_of_rechallenge split: option.splits sum.splits)

text \<open>
  Claim C9. Two \<^verbatim>\<open>POST\<close>s to \<^verbatim>\<open>/oauth/token\<close> whose bodies agree on \<^verbatim>\<open>grant_type\<close> and
  \<^verbatim>\<open>code\<close> get the same response and leave the same store, whatever else they carry:
  \<^verbatim>\<open>code_verifier\<close>, \<^verbatim>\<open>client_id\<close>, \<^verbatim>\<open>client_secret\<close> and \<^verbatim>\<open>redirect_uri\<close> are never
  read. The response and the token records do not depend on the client identifier and
  redirect URI stored with the codes either: replacing them in every stored code changes
  neither. And the code record that the callback stores does not depend on the PKCE
  challenge of the transaction (the \<open>AuthCode\<close> record has no field for it): replacing
  challenge and method in every stored transaction changes neither the callback's
  response nor the table of codes it leaves.
\<close>

theorem token_needs_only_the_code:
  assumes "req_method req = ''POST''" and "pathname req = ''/oauth/token''"
    and "req_method req' = ''POST''" and "pathname req' = ''/oauth/token''"
    and "map_of (form_parse P (body req')) ''grant_type'' =
         map_of (form_parse P (body req)) ''grant_type''"
    and "map_of (form_parse P (body req')) ''code'' = map_of (form_parse P (body req)) ''code''"
  shows "createOAuthServer P cfg e s req' = createOAuthServer P cfg e s req \<and>
         fst (createOAuthServer P cfg e (s\<lparr>authCodes := rebind_codes f g (authCodes s)\<rparr>) req) =
           fst (createOAuthServer P cfg e s req) \<and>
         tokenStore (snd (createOAuthServer P cfg e
                            (s\<lparr>authCodes := rebind_codes f g (authCodes s)\<rparr>) req)) =
           tokenStore (snd (createOAuthServer P cfg e s req)) \<and>
         (req_method rq = ''GET'' \<and> pathname rq = ''/oauth/callback'' \<longrightarrow>
            fst (createOAuthServer P cfg e' (s'\<lparr>transactions := rechallenge x y (transactions s')\<rparr>) rq) =
              fst (createOAuthServer P cfg e' s' rq) \<and>
            authCodes (snd (createOAuthServer P cfg e'
                              (s'\<lparr>transactions := rechallenge x y (transactions s')\<rparr>) rq)) =
              authCodes (snd (createOAuthServer P cfg e' s' rq)))"
proof -
  have a: "createOAuthServer P cfg e s req' = createOAuthServer P cfg e s req"
    unfolding route_token [OF assms(1,2)] route_token [OF assms(3,4)]
    by (rule token_reads_grant_and_code [OF assms(5,6)])
  have b: "fst (createOAuthServer P cfg e (s\<lparr>authCodes := rebind_codes f g (authCodes s)\<rparr>) req) =
           fst (createOAuthServer P cfg e s req)"
    "tokenStore (snd (createOAuthServer P cfg e
                            (s\<lparr>authCodes := rebind_codes f g (authCodes s)\<rparr>) req)) =
           tokenStore (snd (createOAuthServer P cfg e s req))"
    unfolding route_token [OF assms(1,2)] by (simp_all add: token_ignores_binding)
  have c: "fst (createOAuthServer P cfg e' (s'\<lparr>transactions := rechallenge x y (transactions s')\<rparr>) rq) =
              fst (createOAuthServer P cfg e' s' rq) \<and>
            authCodes (snd (createOAuthServer P cfg e'
                              (s'\<lparr>transactions := rechallenge x y (transactions s')\<rparr>) rq)) =
              authCodes (snd (createOAuthServer P cfg e' s' rq))"
    if "req_method rq = ''GET''" "pathname rq = ''/oauth/callback''"
  proof -
    have m: "req_method rq \<noteq> ''OPTIONS''" using that(1) by simp
    show ?thesis
      unfolding route_callback [OF m that(2)] by (rule callback_ignores_challenge)
  qed
  from a b c show ?thesis by blast
qed

theorem token_needs_only_the_code_witness:
  "map_of (form_parse tv_platform (body tv_token_extra)) ''code_verifier'' = Some ''wrong'' \<and>
   map_of (form_parse tv_platform (body tv_token_extra)) ''client_id'' = Some ''someone-else'' \<and>
   ac_clientId tv_issued = ''c1'' \<and>
   fst (createOAuthServer tv_platform tv_config (tv_env 1700000000900 tv_code (Ok tv_long))
          tv_store2 tv_token_extra) =
     Json 200
       (JObj [(''access_token'',
                 JStr (tv_header_b64 @ ''.'' @ tv_payload3_b64 @ ''.'' @ tv_sig3)),
              (''token_type'', JStr ''Bearer''), (''expires_in'', JNum 3600),
              (''scope'', JStr (join '' '' FACEBOOK_SCOPES))]) \<and>
   fst (createOAuthServer tv_platform tv_config (tv_env 1700000000900 tv_code (Ok tv_long))
          (tv_store2\<lparr>authCodes :=
              rebind_codes (\<lambda>k. ''someone-else'') (\<lambda>k. ''https://elsewhere/cb'')
                (authCodes tv_store2)\<rparr>) tv_token) =
     Json 200
       (JObj [(''access_token'',
                 JStr (tv_header_b64 @ ''.'' @ tv_payload3_b64 @ ''.'' @ tv_sig3)),
              (''token_type'', JStr ''Bearer''), (''expires_in'', JNum 3600),
              (''scope'', JStr (join '' '' FACEBOOK_SCOPES))]) \<and>
   authCodes (snd (createOAuthServer tv_platform tv_config
        (tv_env 1700000000500 tv_code (Ok tv_long))
        (tv_store1\<lparr>transactions := rechallenge (\<lambda>k. None) (\<lambda>k. None) (transactions tv_store1)\<rparr>)
        tv_callback)) =
     [(tv_code, tv_issued)]"
proof -
  let ?e = "tv_env 1700000000900 tv_code (Ok tv_long)"
  have rq: "req_method tv_token = ''POST''" "pathname tv_token = ''/oauth/token''"
    "req_method tv_token_extra = ''POST''" "pathname tv_token_extra = ''/oauth/token''"
    "map_of (form_parse tv_platform (body tv_token_extra)) ''grant_type'' =
     map_of (form_parse tv_platform (body tv_token)) ''grant_type''"
    "map_of (form_parse tv_platform (body tv_token_extra)) ''code'' =
     map_of (form_parse tv_platform (body tv_token)) ''code''"
    by code_simp+
  have cb: "req_method tv_callback = ''GET''" "pathname tv_callback = ''/oauth/callback''"
    by code_simp+
  have extra: "map_of (form_parse tv_platform (body tv_token_extra)) ''code_verifier'' = Some ''wrong''"
    "map_of (form_parse tv_platform (body tv_token_extra)) ''client_id'' = Some ''someone-else''"
    "ac_clientId tv_issued = ''c1''"
    by code_simp+
  have plain: "fst (createOAuthServer tv_platform tv_config ?e tv_store2 tv_token) =
     Json 200
       (JObj [(''access_token'',
                 JStr (tv_header_b64 @ ''.'' @ tv_payload3_b64 @ ''.'' @ tv_sig3)),
              (''token_type'', JStr ''Bearer''), (''expires_in'', JNum 3600),
              (''scope'', JStr (join '' '' FACEBOOK_SCOPES))])"
    by code_simp
  have stored: "authCodes (snd (createOAuthServer tv_platform tv_config
        (tv_env 1700000000500 tv_code (Ok tv_long)) tv_store1 tv_callback)) =
     [(tv_code, tv_issued)]"
    by code_simp
  from token_needs_only_the_code [OF rq, where cfg = tv_config and e = ?e and s = tv_store2
         and f = "\<lambda>k. ''someone-else''" and g = "\<lambda>k. ''https://elsewhere/cb''"
         and rq = tv_callback and e' = "tv_env 1700000000500 tv_code (Ok tv_long)"
         and s' = tv_store1 and x = "\<lambda>k. None" and y = "\<lambda>k. None"]
       cb
  show ?thesis
    using extra plain stored by simp
qed

section \<open>A code is redeemed at most once\<close>

lemma map_of_filter_keys:
  "map_of (filter (\<lambda>kv. fst kv \<notin> K) m) c = (if c \<in> K then None else map_of m c)"
  by (induction m) auto

lemma spent_cleanup: "spent c s \<Longrightarrow> spent c (cleanup t s)"
  by (simp add: spent_def cleanup_def sweep_filter map_of_filter_keys)

lemma spent_token: "spent c s \<Longrightarrow> spent c (snd (token_endpoint P cfg e s req))"
  by (auto simp: spent_def token_endpoint_def Let_def update_conv' split: option.splits)

lemma spent_callback:
  "rand32 e \<noteq> c \<Longrightarrow> spent c s \<Longrightarrow> spent c (snd (callback_endpoint P cfg e s req))"
  by (auto simp: spent_def callback_endpoint_def Let_def update_conv'
        split: option.splits sum.splits)

lemma spent_authorize: "spent c s \<Longrightarrow> spent c (snd (authorize_endpoint cfg e s req))"
  by (auto simp: spent_def authorize_shape split: option.splits)

lemma spent_register: "spent c s \<Longrightarrow> spent c (snd (register_endpoint P e s req))"
  by (auto simp: spent_def register_shape split: option.splits json.splits)

lemma spent_request:
  "rand32 e \<noteq> c \<Longrightarrow> spent c s \<Longrightarrow> spent c (snd (createOAuthServer P cfg e s req))"
  unfolding createOAuthServer_def
  by (simp add: spent_token spent_callback spent_authorize spent_register)

lemma spent_step: "mints_other c ev \<Longrightarrow> spent c s \<Longrightarrow> spent c (step P cfg s ev)"
  by (cases ev) (simp_all add: spent_request spent_cleanup)

lemma spent_run: "list_all (mints_other c) evs \<Longrightarrow> spent c s \<Longrightarrow> spent c (run P cfg s evs)"
  by (induction evs arbitrary: s) (simp_all add: spent_step)

lemma token_on_spent:
  assumes "map_of (form_parse P (body req)) ''grant_type'' = Some ''authorization_code''"
    and "map_of (form_parse P (body req)) ''code'' = Some c" and "c \<noteq> []"
    and "spent c s"
  shows "token_endpoint P cfg e s req =
           (Json 400
              (oauth_error ''invalid_grant''
                 (if map_of (authCodes s) c = None then ''Invalid or expired code''
                  else ''Code already used'')), s)"
  using assms by (auto simp: spent_def token_endpoint_def Let_def split: option.splits)

lemma redeemed_spent:
  assumes "map_of (form_parse P (body req)) ''code'' = Some c"
    and "fst (token_endpoint P cfg e s req) = Json 200 j"
  shows "c \<noteq> [] \<and> spent c (snd (token_endpoint P cfg e s req)) \<and>
         map_of (authCodes (snd (token_endpoint P cfg e s req))) c \<noteq> None"
  using assms
  by (auto simp: spent_def token_endpoint_def Let_def update_conv' oauth_error_def
        split: option.splits if_splits)

text \<open>
  Claim C1 as stated fails on the description of the later rejections: once the cleanup
  has purged the redeemed code (here 300001 ms after it was stored), a further attempt
  is rejected with ``Invalid or expired code'', not with ``Code already used''.
\<close>

theorem replay_after_purge_counterexample:
  "fst (createOAuthServer tv_platform tv_config (tv_env 1700000000900 tv_code (Ok tv_long))
          tv_store2 tv_token) =
     Json 200
       (JObj [(''access_token'',
                 JStr (tv_header_b64 @ ''.'' @ tv_payload3_b64 @ ''.'' @ tv_sig3)),
              (''token_type'', JStr ''Bearer''), (''expires_in'', JNum 3600),
              (''scope'', JStr (join '' '' FACEBOOK_SCOPES))]) \<and>
   tv_store3 =
     snd (createOAuthServer tv_platform tv_config (tv_env 1700000000900 tv_code (Ok tv_long))
            tv_store2 tv_token) \<and>
   fst (createOAuthServer tv_platform tv_config (tv_env 1700000301000 tv_code (Ok tv_long))
          (cleanup 1700000300501 tv_store3) tv_token) =
     Json 400 (oauth_error ''invalid_grant'' ''Invalid or expired code'')"
  by code_simp

text \<open>
  Claim C1, amended. After a \<^verbatim>\<open>POST\<close> to \<^verbatim>\<open>/oauth/token\<close> with the code \<open>c\<close> was
  answered with 200, and after any further requests and runs of the cleanup in which no
  request draws \<open>c\<close> again as its 32 random bytes, every \<^verbatim>\<open>POST\<close> to \<^verbatim>\<open>/oauth/token\<close>
  with \<^verbatim>\<open>grant_type=authorization_code\<close> and the code \<open>c\<close> is answered with 400
  \<^verbatim>\<open>invalid_grant\<close> and leaves the store as it is, so that no token is minted and no
  token record stored. The description is ``Code already used'' while the record of the
  code is still stored, in particular right after the redemption, and ``Invalid or
  expired code'' once the cleanup has purged it.
\<close>

theorem single_redemption:
  assumes "req_method req1 = ''POST''" and "pathname req1 = ''/oauth/token''"
    and "map_of (form_parse P (body req1)) ''code'' = Some c"
    and "fst (createOAuthServer P cfg e1 s req1) = Json 200 j"
    and "list_all (mints_other c) evs"
    and "req_method req2 = ''POST''" and "pathname req2 = ''/oauth/token''"
    and "map_of (form_parse P (body req2)) ''grant_type'' = Some ''authorization_code''"
    and "map_of (form_parse P (body req2)) ''code'' = Some c"
  shows "createOAuthServer P cfg e2 (run P cfg (snd (createOAuthServer P cfg e1 s req1)) evs) req2 =
           (Json 400
              (oauth_error ''invalid_grant''
                 (if map_of (authCodes (run P cfg (snd (createOAuthServer P cfg e1 s req1)) evs)) c
                       = None
                  then ''Invalid or expired code'' else ''Code already used'')),
            run P cfg (snd (createOAuthServer P cfg e1 s req1)) evs) \<and>
         createOAuthServer P cfg e2 (snd (createOAuthServer P cfg e1 s req1)) req2 =
           (Json 400 (oauth_error ''invalid_grant'' ''Code already used''),
            snd (createOAuthServer P cfg e1 s req1))"
proof -
  let ?s1 = "snd (createOAuthServer P cfg e1 s req1)"
  note r1 = route_token [OF assms(1,2)]
  note r2 = route_token [OF assms(6,7)]
  from redeemed_spent [OF assms(3) assms(4) [unfolded r1]]
  have c: "c \<noteq> []" and sp: "spent c ?s1" and st: "map_of (authCodes ?s1) c \<noteq> None"
    by (simp_all add: r1)
  have later: "spent c (run P cfg ?s1 evs)"
    using assms(5) sp by (rule spent_run)
  show ?thesis
    unfolding r2
    using token_on_spent [OF assms(8,9) c later, of cfg e2]
          token_on_spent [OF assms(8,9) c sp, of cfg e2] st
    by simp
qed

theorem single_redemption_witness:
  "list_all (mints_other tv_code)
     [Cleanup 1700000060000,
      Request (tv_env 1700000061000 tv_txn (Ok tv_long)) tv_authorize] \<and>
   fst (createOAuthServer tv_platform tv_config (tv_env 1700000000900 tv_code (Ok tv_long))
          tv_store2 tv_token) =
     Json 200
       (JObj [(''access_token'',
                 JStr (tv_header_b64 @ ''.'' @ tv_payload3_b64 @ ''.'' @ tv_sig3)),
              (''token_type'', JStr ''Bearer''), (''expires_in'', JNum 3600),
              (''scope'', JStr (join '' '' FACEBOOK_SCOPES))]) \<and>
   fst (createOAuthServer tv_platform tv_config (tv_env 1700000062000 tv_code (Ok tv_long))
         (run tv_platform tv_config
            (snd (createOAuthServer tv_platform tv_config
                    (tv_env 1700000000900 tv_code (Ok tv_long)) tv_store2 tv_token))
            [Cleanup 1700000060000,
             Request (tv_env 1700000061000 tv_txn (Ok tv_long)) tv_authorize])
         tv_token) =
     Json 400 (oauth_error ''invalid_grant'' ''Code already used'')"
proof -
  let ?e1 = "tv_env 1700000000900 tv_code (Ok tv_long)"
  let ?evs = "[Cleanup 1700000060000,
               Request (tv_env 1700000061000 tv_txn (Ok tv_long)) tv_authorize]"
  have rq: "req_method tv_token = ''POST''" "pathname tv_token = ''/oauth/token''"
    and cd: "map_of (form_parse tv_platform (body tv_token)) ''code'' = Some tv_code"
    and gt: "map_of (form_parse tv_platform (body tv_token)) ''grant_type'' =
             Some ''authorization_code''"
    by code_simp+
  have first: "fst (createOAuthServer tv_platform tv_config ?e1 tv_store2 tv_token) =
     Json 200
       (JObj [(''access_token'',
                 JStr (tv_header_b64 @ ''.'' @ tv_payload3_b64 @ ''.'' @ tv_sig3)),
              (''token_type'', JStr ''Bearer''), (''expires_in'', JNum 3600),
              (''scope'', JStr (join '' '' FACEBOOK_SCOPES))])"
    by code_simp
  have fresh: "list_all (mints_other tv_code) ?evs"
    by code_simp
  have kept: "map_of (authCodes (run tv_platform tv_config
            (snd (createOAuthServer tv_platform tv_config ?e1 tv_store2 tv_token)) ?evs)) tv_code
          \<noteq> None"
    by code_simp
  have "createOAuthServer tv_platform tv_config (tv_env 1700000062000 tv_code (Ok tv_long))
          (run tv_platform tv_config
             (snd (createOAuthServer tv_platform tv_config ?e1 tv_store2 tv_token)) ?evs)
          tv_token =
        (Json 400
           (oauth_error ''invalid_grant''
              (if map_of (authCodes (run tv_platform tv_config
                    (snd (createOAuthServer tv_platform tv_config ?e1 tv_store2 tv_token)) ?evs))
                    tv_code = None
               then ''Invalid or expired code'' else ''Code already used'')),
         run tv_platform tv_config
           (snd (createOAuthServer tv_platform tv_config ?e1 tv_store2 tv_token)) ?evs)"
    by (rule conjunct1 [OF single_redemption [OF rq cd first fresh rq gt cd]])
  then have second: "fst (createOAuthServer tv_platform tv_config
          (tv_env 1700000062000 tv_code (Ok tv_long))
          (run tv_platform tv_config
             (snd (createOAuthServer tv_platform tv_config ?e1 tv_store2 tv_token)) ?evs)
          tv_token) =
        Json 400 (oauth_error ''invalid_grant'' ''Code already used'')"
    by (simp only: kept if_False fst_conv)
  from fresh first second show ?thesis
    by (intro conjI)
qed

section \<open>Every reachable store has one entry per key\<close>

lemma keys_distinct_cleanup: "keys_distinct s \<Longrightarrow> keys_distinct (cleanup t s)"
  by (simp add: keys_distinct_def cleanup_def sweep_filter distinct_filter_keys)

lemma keys_distinct_token:
  "keys_distinct s \<Longrightarrow> keys_distinct (snd (token_endpoint P cfg e s req))"
  by (auto simp: keys_distinct_def token_endpoint_def Let_def distinct_update
        split: option.splits)

lemma keys_distinct_callback:
  "keys_distinct s \<Longrightarrow> keys_distinct (snd (callback_endpoint P cfg e s req))"
  by (auto simp: keys_distinct_def callback_endpoint_def Let_def distinct_update distinct_delete
        split: option.splits sum.splits)

lemma keys_distinct_authorize:
  "keys_distinct s \<Longrightarrow> keys_distinct (snd (authorize_endpoint cfg e s req))"
  by (auto simp: keys_distinct_def authorize_shape distinct_update split: option.splits)

lemma keys_distinct_register:
  "keys_distinct s \<Longrightarrow> keys_distinct (snd (register_endpoint P e s req))"
  by (auto simp: keys_distinct_def register_shape distinct_update
        split: option.splits json.splits)

lemma keys_distinct_step: "keys_distinct s \<Longrightarrow> keys_distinct (step P cfg s ev)"
  by (cases ev)
     (simp_all add: createOAuthServer_def keys_distinct_token keys_distinct_callback
        keys_distinct_authorize keys_distinct_register keys_distinct_cleanup)

lemma keys_distinct_run: "keys_distinct s \<Longrightarrow> keys_distinct (run P cfg s evs)"
  by (induction evs arbitrary: s) (simp_all add: keys_distinct_step)

lemma keys_distinct_reachable: "keys_distinct (run P cfg empty_store evs)"
  by (rule keys_distinct_run) (simp add: keys_distinct_def empty_store_def)

end
